theory Spec2Isabelle
  imports Main "HOL-Library.Sublist"
begin

section \<open>Values, errors and observable runs\<close>

text \<open>
  The messaging module (src/messaging/Message.ts) works on two kinds of data: typed
  records (the wire form, identities) and untyped values that come out of
  \<^verbatim>\<open>JSON.parse\<close> and are only cast to \<^verbatim>\<open>MessageBody\<close>. The casts are unchecked,
  so a parsed body is modelled as the JavaScript value it is.

  Strings are lists of 8-bit characters (the code units of JavaScript beyond them do
  not occur in the addresses, keys, hex strings and type names the module handles).
\<close>

datatype jsval =
    JUndefined
  | JNull
  | JBool bool
  | JNum int
  | JStr string
  | JArr "jsval list"
  | JObj "(string \<times> jsval) list"

text \<open>
  Everything the module throws. The \<^verbatim>\<open>SDKErrors\<close> factories keep their names and
  arguments; \<open>Error\<close> is a plain \<^verbatim>\<open>new Error(message)\<close>; \<open>TypeError\<close> and
  \<open>SyntaxError\<close> are raised by the language itself (property access on
  \<^verbatim>\<open>null\<close>/\<^verbatim>\<open>undefined\<close>, calling a non-function, \<^verbatim>\<open>JSON.parse\<close>);
  \<open>Thrown\<close> is an error raised inside a library the module calls;
  \<open>SignatureInvalid\<close> is the error of \<^verbatim>\<open>validateSignature\<close> (see there).
\<close>

datatype error =
    ERROR_NONCE_HASH_INVALID string string string
  | SignatureInvalid
  | ERROR_DECODING_MESSAGE
  | ERROR_PARSING_MESSAGE
  | ERROR_IDENTITY_MISMATCH string string
  | Error string
  | TypeError
  | SyntaxError
  | Thrown string

record EncryptedAsymmetricString =
  box :: string
  nonce :: string

text \<open>
  What a run of the module lets an observer see besides its result: the calls it makes
  to its collaborators (cryptography, JSON, DIDComm), in order, and the moment it enters the
  ownership check.
\<close>

datatype event =
    Call_JSON_stringify jsval
  | Call_encryptAsymmetricAsStr string string
  | Call_hashStr string
  | Call_signStr string
  | Call_validateSignature string string string
  | Call_decryptAsymmetricAsStr EncryptedAsymmetricString string
  | Call_JSON_parse string
  | Enter_ensureOwnerIsSender
  | Call_unpackMessage string
  | Call_base58Decode string
  | Call_encodeAddress string

text \<open>
  A run is the list of events so far and either the error thrown or the value returned.
  \<open>and_then\<close> is sequencing (a thrown error skips the rest), \<open>try_catch\<close> is
  \<^verbatim>\<open>try { ... } catch (error) { ... }\<close>.
\<close>

type_synonym 'a run = "event list \<times> (error + 'a)"

definition ret :: "'a \<Rightarrow> 'a run" where
  "ret x = ([], Inr x)"

definition throw :: "error \<Rightarrow> 'a run" where
  "throw e = ([], Inl e)"

definition call :: "event \<Rightarrow> (error + 'a) \<Rightarrow> 'a run" where
  "call ev outcome = ([ev], outcome)"

definition and_then :: "'a run \<Rightarrow> ('a \<Rightarrow> 'b run) \<Rightarrow> 'b run" where
  "and_then m f =
     (case m of
        (evs, Inl e) \<Rightarrow> (evs, Inl e)
      | (evs, Inr x) \<Rightarrow> (case f x of (evs', r) \<Rightarrow> (evs @ evs', r)))"

definition try_catch :: "'a run \<Rightarrow> (error \<Rightarrow> 'a run) \<Rightarrow> 'a run" where
  "try_catch m h =
     (case m of
        (evs, Inl e) \<Rightarrow> (case h e of (evs', r) \<Rightarrow> (evs @ evs', r))
      | (evs, Inr x) \<Rightarrow> (evs, Inr x))"

definition events :: "'a run \<Rightarrow> event list" where
  "events m = fst m"

definition outcome :: "'a run \<Rightarrow> error + 'a" where
  "outcome m = snd m"

subsection \<open>Property access on parsed values\<close>

text \<open>
  \<^verbatim>\<open>v.key\<close>: a TypeError on \<^verbatim>\<open>null\<close> and \<^verbatim>\<open>undefined\<close>, the own property of an
  object, and \<^verbatim>\<open>undefined\<close> otherwise. (None of the keys the module reads is a
  prototype property of a primitive or an array, except \<^verbatim>\<open>forEach\<close>, which has its
  own definition below.)
\<close>

fun get_prop :: "jsval \<Rightarrow> string \<Rightarrow> jsval run" where
  "get_prop JUndefined k = throw TypeError"
| "get_prop JNull k = throw TypeError"
| "get_prop (JObj fs) k = ret (case map_of fs k of Some v \<Rightarrow> v | None \<Rightarrow> JUndefined)"
| "get_prop v k = ret JUndefined"

text \<open>A chain \<^verbatim>\<open>v.k1.k2...\<close>, read left to right.\<close>

fun get_path :: "jsval \<Rightarrow> string list \<Rightarrow> jsval run" where
  "get_path v [] = ret v"
| "get_path v (k # ks) = and_then (get_prop v k) (\<lambda>v'. get_path v' ks)"

text \<open>
  \<^verbatim>\<open>v.forEach(f)\<close> on a parsed value: arrays have the method (the callback runs on the
  elements in order, and an error it throws ends the loop); on \<^verbatim>\<open>null\<close> and
  \<^verbatim>\<open>undefined\<close> the property access throws; on everything else \<^verbatim>\<open>forEach\<close> is
  not a function.
\<close>

fun each :: "(jsval \<Rightarrow> unit run) \<Rightarrow> jsval list \<Rightarrow> unit run" where
  "each f [] = ret ()"
| "each f (x # xs) = and_then (f x) (\<lambda>_. each f xs)"

fun forEach :: "jsval \<Rightarrow> (jsval \<Rightarrow> unit run) \<Rightarrow> unit run" where
  "forEach (JArr xs) f = each f xs"
| "forEach v f = throw TypeError"

text \<open>
  Numbers: the time stamps of the module are integral (\<^verbatim>\<open>Date.now()\<close>), or
  \<^verbatim>\<open>NaN\<close> when a date does not parse. \<open>number_toString\<close> is the conversion that
  \<^verbatim>\<open>message + nonce + createdAt\<close> applies to the time stamp: decimal digits, with a
  minus sign for a negative number (what JavaScript prints for an integer below
  \<open>10^21\<close> in absolute value).
\<close>

datatype number = Num int | NaN

fun digits :: "nat \<Rightarrow> string" where
  "digits n =
     (if n < 10 then [''0123456789'' ! n]
      else digits (n div 10) @ [''0123456789'' ! (n mod 10)])"

declare digits.simps [simp del]

fun number_toString :: "number \<Rightarrow> string" where
  "number_toString NaN = ''NaN''"
| "number_toString (Num i) =
     (if i < 0 then CHR ''-'' # digits (nat (- i)) else digits (nat i))"

section \<open>Data model\<close>

text \<open>
  \<^verbatim>\<open>IPublicIdentity\<close> and \<^verbatim>\<open>Identity\<close>: the module reads an identity's address and
  box public key; the private key material (the seed) is only handed to the
  collaborators, which take the identity as an argument.
\<close>

record IPublicIdentity =
  address :: string
  boxPublicKeyAsHex :: string

record Identity = IPublicIdentity +
  seed :: string

text \<open>
  Modelled from the spec: the class \<^verbatim>\<open>Identity\<close> is defined in another module
  (identity/Identity); the spec gives \<^verbatim>\<open>identity.getBoxPublicKey() -> string\<close>, the
  identity's public encryption key.
\<close>

definition getBoxPublicKey :: "Identity \<Rightarrow> string" where
  "getBoxPublicKey identity = boxPublicKeyAsHex identity"

text \<open>
  \<^verbatim>\<open>IMessage\<close> as \<^verbatim>\<open>decryptDIDComm\<close> builds it: five fields, of which
  \<^verbatim>\<open>senderBoxPublicKey\<close> is whatever the envelope held (or the empty string).
\<close>

record IMessage =
  body :: jsval
  createdAt :: number
  senderBoxPublicKey :: jsval
  receiverAddress :: string
  senderAddress :: string

text \<open>
  \<^verbatim>\<open>IEncryptedMessage\<close>, the wire form: the routing fields picked from
  \<^verbatim>\<open>IMessage\<close> and the four derived fields. A \<open>Message\<close> has these fields and the
  body: this is the instance the class constructor builds (its private fields
  \<^verbatim>\<open>message\<close>, \<^verbatim>\<open>nonce\<close>, \<^verbatim>\<open>hash\<close>, \<^verbatim>\<open>signature\<close> included) and also the object
  \<^verbatim>\<open>{...encrypted, body: messageBody}\<close> that \<^verbatim>\<open>decrypt\<close> returns.
\<close>

record IEncryptedMessage =
  createdAt :: number
  receiverAddress :: string
  senderAddress :: string
  senderBoxPublicKey :: string
  messageId :: "string option"
  receivedAt :: "number option"
  message :: string
  nonce :: string
  hash :: string
  signature :: string

record Message = IEncryptedMessage +
  body :: jsval

section \<open>Collaborators\<close>

text \<open>
  The cryptographic primitives, JSON and the DIDComm library are outside the module.
  They are parameters of the model, so that every theorem holds for whatever they
  compute. \<open>encryptAsymmetricAsStr\<close> draws a fresh nonce on every call: the draw is the
  explicit argument \<open>entropy\<close>. It can throw (the library rejects a key it cannot use).
  \<open>decryptAsymmetricAsStr\<close> returns \<^verbatim>\<open>string | false\<close>, here \<open>None\<close> for
  \<^verbatim>\<open>false\<close>. \<open>JSON_parse\<close> is \<open>None\<close> where \<^verbatim>\<open>JSON.parse\<close> throws a SyntaxError.
\<close>

record KeyPair =
  publicKey :: string
  secretKey :: string

record Unpacked =
  unpacked_message :: string
  senderKey :: string
  recipientKey :: string

record collaborators =
  hashStr :: "string \<Rightarrow> string"
  encryptAsymmetricAsStr ::
    "Identity \<Rightarrow> string \<Rightarrow> string \<Rightarrow> string \<Rightarrow> error + EncryptedAsymmetricString"
  decryptAsymmetricAsStr ::
    "Identity \<Rightarrow> EncryptedAsymmetricString \<Rightarrow> string \<Rightarrow> string option"
  signStr :: "Identity \<Rightarrow> string \<Rightarrow> string"
  verify :: "string \<Rightarrow> string \<Rightarrow> string \<Rightarrow> bool"
  JSON_stringify :: "jsval \<Rightarrow> string"
  JSON_parse :: "string \<Rightarrow> jsval option"
  naclKeypairFromSeed :: "string \<Rightarrow> KeyPair"
  unpackMessage :: "string \<Rightarrow> KeyPair \<Rightarrow> error + Unpacked"
  Date_getTime :: "jsval \<Rightarrow> number"
  base58Decode :: "string \<Rightarrow> error + string"
  encodeAddress :: "string \<Rightarrow> error + string"


text \<open>
  Modelled from the spec: \<^verbatim>\<open>validateSignature\<close> is defined in another module
  (util/DataUtils). The spec gives
  \<^verbatim>\<open>validateSignature(payload, signature, claimedSignerAddress) -> void | throws\<close>:
  it verifies the signature against the payload with the public signing key derivable
  from the address and fails with a signature-invalid error on mismatch.
\<close>

definition validateSignature ::
  "collaborators \<Rightarrow> string \<Rightarrow> string \<Rightarrow> string \<Rightarrow> unit run" where
  "validateSignature env payload sig signer =
     call (Call_validateSignature payload sig signer)
       (if verify env payload sig signer then Inr () else Inl SignatureInvalid)"

section \<open>The message body model\<close>

text \<open>
  \<^verbatim>\<open>enum MessageBodyType\<close>: sixteen members, each with its string value.
  \<^verbatim>\<open>Object.values(MessageBodyType)\<close> lists the values in the order of declaration.
\<close>

datatype MessageBodyType =
    REQUEST_TERMS
  | SUBMIT_TERMS
  | REJECT_TERMS
  | INITIATE_ATTESTATION
  | REQUEST_ATTESTATION_FOR_CLAIM
  | SUBMIT_ATTESTATION_FOR_CLAIM
  | REJECT_ATTESTATION_FOR_CLAIM
  | REQUEST_CLAIMS_FOR_CTYPES
  | SUBMIT_CLAIMS_FOR_CTYPES_CLASSIC
  | SUBMIT_CLAIMS_FOR_CTYPES_PE
  | ACCEPT_CLAIMS_FOR_CTYPES
  | REJECT_CLAIMS_FOR_CTYPES
  | REQUEST_ACCEPT_DELEGATION
  | SUBMIT_ACCEPT_DELEGATION
  | REJECT_ACCEPT_DELEGATION
  | INFORM_CREATE_DELEGATION

fun enum_value :: "MessageBodyType \<Rightarrow> string" where
  "enum_value REQUEST_TERMS = ''request-terms''"
| "enum_value SUBMIT_TERMS = ''submit-terms''"
| "enum_value REJECT_TERMS = ''reject-terms''"
| "enum_value INITIATE_ATTESTATION = ''initiate-attestation''"
| "enum_value REQUEST_ATTESTATION_FOR_CLAIM = ''request-attestation-for-claim''"
| "enum_value SUBMIT_ATTESTATION_FOR_CLAIM = ''submit-attestation-for-claim''"
| "enum_value REJECT_ATTESTATION_FOR_CLAIM = ''reject-attestation-for-claim''"
| "enum_value REQUEST_CLAIMS_FOR_CTYPES = ''request-claims-for-ctypes''"
| "enum_value SUBMIT_CLAIMS_FOR_CTYPES_CLASSIC = ''submit-claims-for-ctypes-classic''"
| "enum_value SUBMIT_CLAIMS_FOR_CTYPES_PE = ''submit-claims-for-ctypes-pe''"
| "enum_value ACCEPT_CLAIMS_FOR_CTYPES = ''accept-claims-for-ctypes''"
| "enum_value REJECT_CLAIMS_FOR_CTYPES = ''reject-claims-for-ctypes''"
| "enum_value REQUEST_ACCEPT_DELEGATION = ''request-accept-delegation''"
| "enum_value SUBMIT_ACCEPT_DELEGATION = ''submit-accept-delegation''"
| "enum_value REJECT_ACCEPT_DELEGATION = ''reject-accept-delegation''"
| "enum_value INFORM_CREATE_DELEGATION = ''inform-create-delegation''"

definition MessageBodyType_values :: "string list" where
  "MessageBodyType_values =
     map enum_value
       [REQUEST_TERMS, SUBMIT_TERMS, REJECT_TERMS, INITIATE_ATTESTATION,
        REQUEST_ATTESTATION_FOR_CLAIM, SUBMIT_ATTESTATION_FOR_CLAIM,
        REJECT_ATTESTATION_FOR_CLAIM, REQUEST_CLAIMS_FOR_CTYPES,
        SUBMIT_CLAIMS_FOR_CTYPES_CLASSIC, SUBMIT_CLAIMS_FOR_CTYPES_PE,
        ACCEPT_CLAIMS_FOR_CTYPES, REJECT_CLAIMS_FOR_CTYPES, REQUEST_ACCEPT_DELEGATION,
        SUBMIT_ACCEPT_DELEGATION, REJECT_ACCEPT_DELEGATION, INFORM_CREATE_DELEGATION]"

text \<open>\<^verbatim>\<open>isKnownMessageType(type)\<close>: \<^verbatim>\<open>Object.values(MessageBodyType).includes(type)\<close>.\<close>

definition isKnownMessageType :: "string \<Rightarrow> bool" where
  "isKnownMessageType ty = (ty \<in> set MessageBodyType_values)"

section \<open>The validation layer\<close>

text \<open>
  \<^verbatim>\<open>Message.ensureOwnerIsSender({ body, senderAddress })\<close>: a switch on
  \<^verbatim>\<open>body.type\<close> with three cases and an empty default. \<^verbatim>\<open>!==\<close> against the
  sender's address holds unless the owner is that very string.
\<close>

definition ensureOwnerIsSender :: "jsval \<Rightarrow> string \<Rightarrow> unit run" where
  "ensureOwnerIsSender msg_body sender_address =
     and_then (call Enter_ensureOwnerIsSender (Inr ())) (\<lambda>_.
     and_then (get_prop msg_body ''type'') (\<lambda>ty.
       if ty = JStr (enum_value REQUEST_ATTESTATION_FOR_CLAIM) then
         and_then (get_path msg_body [''content'', ''requestForAttestation'', ''claim'', ''owner''])
           (\<lambda>owner.
             if owner \<noteq> JStr sender_address
             then throw (ERROR_IDENTITY_MISMATCH ''Claim'' ''Sender'')
             else ret ())
       else if ty = JStr (enum_value SUBMIT_ATTESTATION_FOR_CLAIM) then
         and_then (get_path msg_body [''content'', ''attestation'', ''owner''])
           (\<lambda>owner.
             if owner \<noteq> JStr sender_address
             then throw (ERROR_IDENTITY_MISMATCH ''Attestation'' ''Sender'')
             else ret ())
       else if ty = JStr (enum_value SUBMIT_CLAIMS_FOR_CTYPES_CLASSIC) then
         and_then (get_prop msg_body ''content'') (\<lambda>content.
           forEach content (\<lambda>claim.
             and_then (get_path claim [''request'', ''claim'', ''owner'']) (\<lambda>owner.
               if owner \<noteq> JStr sender_address
               then throw (ERROR_IDENTITY_MISMATCH ''Claims'' ''Sender'')
               else ret ())))
       else ret ()))"

text \<open>
  \<^verbatim>\<open>Message.ensureHashAndSignature(encrypted, senderAddress)\<close>: the digest of
  \<^verbatim>\<open>message + nonce + createdAt\<close> is compared with the transmitted hash, then the
  signature on the hash is validated.
\<close>

definition ensureHashAndSignature ::
  "collaborators \<Rightarrow> IEncryptedMessage \<Rightarrow> string \<Rightarrow> unit run" where
  "ensureHashAndSignature env encrypted sender_address =
     (let input = message encrypted @ nonce encrypted @ number_toString (createdAt encrypted) in
      and_then (call (Call_hashStr input) (Inr (hashStr env input))) (\<lambda>digest.
        if digest \<noteq> hash encrypted
        then throw (ERROR_NONCE_HASH_INVALID (hash encrypted) (nonce encrypted) ''Message'')
        else validateSignature env (hash encrypted) (signature encrypted) sender_address))"

text \<open>
  \<^verbatim>\<open>Message.decrypt(encrypted, receiver)\<close>. \<^verbatim>\<open>!decoded\<close> holds for \<^verbatim>\<open>false\<close> and
  for the empty string. Parsing, building the result and the ownership check stand in
  one \<^verbatim>\<open>try\<close> block whose \<^verbatim>\<open>catch\<close> throws the parsing error.
\<close>

definition decrypt :: "collaborators \<Rightarrow> IEncryptedMessage \<Rightarrow> Identity \<Rightarrow> Message run" where
  "decrypt env encrypted receiver =
     and_then (ensureHashAndSignature env encrypted (senderAddress encrypted)) (\<lambda>_.
       let ea = \<lparr>box = message encrypted, EncryptedAsymmetricString.nonce = nonce encrypted\<rparr> in
       and_then
         (call (Call_decryptAsymmetricAsStr ea (senderBoxPublicKey encrypted))
            (Inr (decryptAsymmetricAsStr env receiver ea (senderBoxPublicKey encrypted))))
         (\<lambda>decoded.
           case decoded of
             None \<Rightarrow> throw ERROR_DECODING_MESSAGE
           | Some plaintext \<Rightarrow>
               if plaintext = [] then throw ERROR_DECODING_MESSAGE
               else
                 try_catch
                   (and_then
                      (call (Call_JSON_parse plaintext)
                         (case JSON_parse env plaintext of
                            None \<Rightarrow> Inl SyntaxError
                          | Some v \<Rightarrow> Inr v))
                      (\<lambda>messageBody.
                        let decrypted = IEncryptedMessage.extend encrypted (Message.fields messageBody) in
                        and_then (ensureOwnerIsSender (body decrypted) (senderAddress decrypted))
                          (\<lambda>_. ret decrypted)))
                   (\<lambda>error. throw ERROR_PARSING_MESSAGE)))"

section \<open>The envelope\<close>

text \<open>
  \<^verbatim>\<open>new Message(body, sender, receiver)\<close>. \<open>now\<close> is what \<^verbatim>\<open>Date.now()\<close> returns and
  \<open>entropy\<close> the nonce drawn by the encryption; \<^verbatim>\<open>messageId\<close> and \<^verbatim>\<open>receivedAt\<close>
  are left undefined.
\<close>

definition new_Message ::
  "collaborators \<Rightarrow> jsval \<Rightarrow> Identity \<Rightarrow> IPublicIdentity \<Rightarrow> int \<Rightarrow> string \<Rightarrow> Message run" where
  "new_Message env msg_body sender receiver now entropy =
     (let created = Num now;
          receiver_address = address receiver;
          sender_address = address sender;
          sender_box_key = getBoxPublicKey sender
      in
      and_then (call (Call_JSON_stringify msg_body) (Inr (JSON_stringify env msg_body)))
        (\<lambda>plaintext.
      and_then
        (call (Call_encryptAsymmetricAsStr plaintext (boxPublicKeyAsHex receiver))
           (encryptAsymmetricAsStr env sender plaintext (boxPublicKeyAsHex receiver) entropy))
        (\<lambda>encryptedMessage.
      let msg = box encryptedMessage;
          nce = EncryptedAsymmetricString.nonce encryptedMessage;
          hashInput = msg @ nce @ number_toString created
      in
      and_then (call (Call_hashStr hashInput) (Inr (hashStr env hashInput))) (\<lambda>h.
      and_then (call (Call_signStr h) (Inr (signStr env sender h))) (\<lambda>sg.
      ret \<lparr>createdAt = created,
           receiverAddress = receiver_address,
           senderAddress = sender_address,
           senderBoxPublicKey = sender_box_key,
           messageId = None,
           receivedAt = None,
           message = msg,
           nonce = nce,
           hash = h,
           signature = sg,
           body = msg_body\<rparr>)))))"

text \<open>\<^verbatim>\<open>encrypt()\<close>: the wire form of a message, field by field.\<close>

definition encrypt :: "Message \<Rightarrow> IEncryptedMessage" where
  "encrypt this =
     \<lparr>createdAt = createdAt this,
      receiverAddress = receiverAddress this,
      senderAddress = senderAddress this,
      senderBoxPublicKey = senderBoxPublicKey this,
      messageId = messageId this,
      receivedAt = receivedAt this,
      message = message this,
      nonce = nonce this,
      hash = hash this,
      signature = signature this\<rparr>"

section \<open>The secure-channel adapter\<close>

subsection \<open>The regular expression of the type URI\<close>

text \<open>
  \<^verbatim>\<open>'(.*?)[/?&:;=]([a-z0-9._-]+)/([0-9.]+)/([a-z0-9._-]+)$'\<close> is a sequence of
  pieces, each one character class under a quantifier (or the end anchor), four of them
  inside a capturing group. The matcher is the backtracking one of the language:
  a lazy star tries the rest of the pattern first and takes one more character only
  when that fails; a greedy plus takes as many characters as it can and gives them back
  one by one. On success it returns the text matched by each piece.
\<close>

datatype atom =
    One "char \<Rightarrow> bool"
  | Lazy_Star "char \<Rightarrow> bool"
  | Greedy_Plus "char \<Rightarrow> bool"
  | End_Of_Input

datatype piece = Plain atom | Capture atom

fun atom_of :: "piece \<Rightarrow> atom" where
  "atom_of (Plain a) = a"
| "atom_of (Capture a) = a"

fun is_capture :: "piece \<Rightarrow> bool" where
  "is_capture (Plain a) = False"
| "is_capture (Capture a) = True"

fun push :: "char \<Rightarrow> string list option \<Rightarrow> string list option" where
  "push x (Some (m # ms)) = Some ((x # m) # ms)"
| "push x r = None"

fun match_here :: "atom list \<Rightarrow> string \<Rightarrow> string list option" where
  "match_here [] s = Some []"
| "match_here (End_Of_Input # r) s =
     (if s = [] then map_option (Cons []) (match_here r s) else None)"
| "match_here (One c # r) [] = None"
| "match_here (One c # r) (x # xs) =
     (if c x then map_option (Cons [x]) (match_here r xs) else None)"
| "match_here (Lazy_Star c # r) [] = map_option (Cons []) (match_here r [])"
| "match_here (Lazy_Star c # r) (x # xs) =
     (case match_here r (x # xs) of
        Some ms \<Rightarrow> Some ([] # ms)
      | None \<Rightarrow> if c x then push x (match_here (Lazy_Star c # r) xs) else None)"
| "match_here (Greedy_Plus c # r) [] = None"
| "match_here (Greedy_Plus c # r) (x # xs) =
     (if c x then
        (case match_here (Greedy_Plus c # r) xs of
           Some ms \<Rightarrow> push x (Some ms)
         | None \<Rightarrow> map_option (Cons [x]) (match_here r xs))
      else None)"

text \<open>The pattern is not anchored at the start: the leftmost start that matches wins.\<close>

fun match_from :: "atom list \<Rightarrow> string \<Rightarrow> string list option" where
  "match_from as [] = match_here as []"
| "match_from as (x # xs) =
     (case match_here as (x # xs) of
        Some ms \<Rightarrow> Some ms
      | None \<Rightarrow> match_from as xs)"

text \<open>
  \<^verbatim>\<open>string.match(regexp)\<close> for a pattern without the global flag: \<^verbatim>\<open>null\<close> or the
  array of the whole match followed by the captured groups.
\<close>

definition regex_match :: "piece list \<Rightarrow> string \<Rightarrow> string list option" where
  "regex_match ps s =
     map_option
       (\<lambda>ms. concat ms # map snd (filter (\<lambda>(p, m). is_capture p) (zip ps ms)))
       (match_from (map atom_of ps) s)"

definition is_lower :: "char \<Rightarrow> bool" where
  "is_lower c = (c \<in> set ''abcdefghijklmnopqrstuvwxyz'')"

definition is_digit :: "char \<Rightarrow> bool" where
  "is_digit c = (c \<in> set ''0123456789'')"

text \<open>\<^verbatim>\<open>.\<close> matches every character but a line terminator.\<close>

definition any_char :: "char \<Rightarrow> bool" where
  "any_char c = (c \<noteq> CHR 0x0A \<and> c \<noteq> CHR 0x0D)"

text \<open>\<^verbatim>\<open>[/?&:;=]\<close>\<close>

definition separator_char :: "char \<Rightarrow> bool" where
  "separator_char c = (c \<in> set ''/?&:;='')"

text \<open>\<^verbatim>\<open>[a-z0-9._-]\<close>\<close>

definition name_char :: "char \<Rightarrow> bool" where
  "name_char c = (is_lower c \<or> is_digit c \<or> c \<in> set ''._-'')"

text \<open>\<^verbatim>\<open>[0-9.]\<close>\<close>

definition version_char :: "char \<Rightarrow> bool" where
  "version_char c = (is_digit c \<or> c = CHR ''.'')"

definition typestringReg :: "piece list" where
  "typestringReg =
     [Capture (Lazy_Star any_char),
      Plain (One separator_char),
      Capture (Greedy_Plus name_char),
      Plain (One (\<lambda>c. c = CHR ''/'')),
      Capture (Greedy_Plus version_char),
      Plain (One (\<lambda>c. c = CHR ''/'')),
      Capture (Greedy_Plus name_char),
      Plain End_Of_Input]"

text \<open>
  A type URI put together from its segments,
  \<^verbatim>\<open><issuer><separator><protocol-name>/<protocol-version>/<message-type>\<close>, and what
  the pattern asks of a segment: at least one character, all of its class.
\<close>

definition type_uri :: "string \<Rightarrow> char \<Rightarrow> string \<Rightarrow> string \<Rightarrow> string \<Rightarrow> string" where
  "type_uri issuer sep name version typestr =
     issuer @ [sep] @ name @ ''/'' @ version @ ''/'' @ typestr"

definition segment :: "(char \<Rightarrow> bool) \<Rightarrow> string \<Rightarrow> bool" where
  "segment cls s = (s \<noteq> [] \<and> list_all cls s)"

subsection \<open>Decoding an envelope\<close>

definition PROTOCOL_NAME :: string where
  "PROTOCOL_NAME = ''kilt-messaging''"

definition PROTOCOL_VERSION :: string where
  "PROTOCOL_VERSION = ''0.19''"

definition quoted :: "string \<Rightarrow> string" where
  "quoted s = [CHR 0x27] @ s @ [CHR 0x27]"

definition ERROR_CANT_HANDLE_PROTOCOL :: "string \<Rightarrow> string \<Rightarrow> error" where
  "ERROR_CANT_HANDLE_PROTOCOL name version =
     Error (''no handler for protocol '' @ quoted name @ '' version '' @ quoted version)"

text \<open>The operand test of \<^verbatim>\<open>||\<close>.\<close>

fun truthy :: "jsval \<Rightarrow> bool" where
  "truthy JUndefined = False"
| "truthy JNull = False"
| "truthy (JBool b) = b"
| "truthy (JNum n) = (n \<noteq> 0)"
| "truthy (JStr s) = (s \<noteq> [])"
| "truthy v = True"

text \<open>
  The part of \<^verbatim>\<open>decryptDIDComm\<close> that finds the message type:
  \<^verbatim>\<open>type\<close> stays \<^verbatim>\<open>null\<close> unless \<^verbatim>\<open>contents['@type']\<close> is a string that the
  pattern matches with five captures.
\<close>

definition message_type_of :: "jsval \<Rightarrow> string option run" where
  "message_type_of at_type =
     (case at_type of
        JStr uri \<Rightarrow>
          (case regex_match typestringReg uri of
             Some captures \<Rightarrow>
               if length captures = 5 then
                 (let name = captures ! 2; version = captures ! 3; typestr = captures ! 4 in
                  if name \<noteq> PROTOCOL_NAME \<or> version \<noteq> PROTOCOL_VERSION
                  then throw (ERROR_CANT_HANDLE_PROTOCOL name version)
                  else if isKnownMessageType typestr then ret (Some typestr)
                  else throw (Error (''unknown message type: '' @ quoted typestr)))
               else ret None
           | None \<Rightarrow> ret None)
      | _ \<Rightarrow> ret None)"

text \<open>
  \<^verbatim>\<open>Message.decryptDIDComm(message, recipient)\<close>. \<^verbatim>\<open>!type\<close> holds for \<^verbatim>\<open>null\<close> and
  for the empty string.
\<close>

definition decryptDIDComm :: "collaborators \<Rightarrow> string \<Rightarrow> Identity \<Rightarrow> IMessage run" where
  "decryptDIDComm env packed recipient =
     (let recKeyPair = naclKeypairFromSeed env (seed recipient) in
      and_then (call (Call_unpackMessage packed) (unpackMessage env packed recKeyPair))
        (\<lambda>unpacked.
      and_then
        (call (Call_JSON_parse (unpacked_message unpacked))
           (case JSON_parse env (unpacked_message unpacked) of
              None \<Rightarrow> Inl SyntaxError
            | Some v \<Rightarrow> Inr v))
        (\<lambda>contents.
      and_then (get_prop contents ''@type'') (\<lambda>at_type.
      and_then (message_type_of at_type) (\<lambda>ty.
        case ty of
          None \<Rightarrow> throw (Error ''no or invalid @type URI in message'')
        | Some typestr \<Rightarrow>
            if typestr = [] then throw (Error ''no or invalid @type URI in message'')
            else
              and_then (get_prop contents ''content'') (\<lambda>content.
              and_then (get_prop contents ''sent_time'') (\<lambda>sent_time.
              and_then (call (Call_base58Decode (senderKey unpacked))
                          (base58Decode env (senderKey unpacked))) (\<lambda>senderSignPublicKey.
              and_then (call (Call_base58Decode (recipientKey unpacked))
                          (base58Decode env (recipientKey unpacked))) (\<lambda>receiverSignPublicKey.
              and_then (get_prop contents ''senderBoxPublicKey'') (\<lambda>box_key.
              and_then (call (Call_encodeAddress receiverSignPublicKey)
                          (encodeAddress env receiverSignPublicKey)) (\<lambda>receiver_address.
              and_then (call (Call_encodeAddress senderSignPublicKey)
                          (encodeAddress env senderSignPublicKey)) (\<lambda>sender_address.
              ret \<lparr>IMessage.body = JObj [(''content'', content), (''type'', JStr typestr)],
                   IMessage.createdAt = Date_getTime env sent_time,
                   IMessage.senderBoxPublicKey = (if truthy box_key then box_key else JStr []),
                   IMessage.receiverAddress = receiver_address,
                   IMessage.senderAddress = sender_address\<rparr>))))))))))))"

section \<open>The round trip\<close>

text \<open>
  \<^verbatim>\<open>Message.decrypt(new Message(body, sender, receiver).encrypt(), receiver)\<close>, with the
  receiver's public identity used at construction.
\<close>

definition public_identity :: "Identity \<Rightarrow> IPublicIdentity" where
  "public_identity identity =
     \<lparr>address = address identity, boxPublicKeyAsHex = boxPublicKeyAsHex identity\<rparr>"

definition roundtrip ::
  "collaborators \<Rightarrow> jsval \<Rightarrow> Identity \<Rightarrow> Identity \<Rightarrow> int \<Rightarrow> string \<Rightarrow> Message run" where
  "roundtrip env msg_body sender receiver now entropy =
     and_then (new_Message env msg_body sender (public_identity receiver) now entropy)
       (\<lambda>m. decrypt env (encrypt m) receiver)"

section \<open>A small world to run the module in\<close>

text \<open>
  Two identities and stand-ins for the collaborators, simple enough to compute with:
  the digest wraps its input, a signature names the signer's address and the payload,
  the box names the receiver's key in front of the plain text (and is refused for an
  empty key, as the library refuses a key of the wrong size), and JSON text is looked
  up in a table of the bodies used below.
\<close>

definition alice :: Identity where
  "alice = \<lparr>address = ''5Alice'', boxPublicKeyAsHex = ''0xa11ce'', seed = ''//Alice''\<rparr>"

definition bob :: Identity where
  "bob = \<lparr>address = ''5Bob'', boxPublicKeyAsHex = ''0xb0b'', seed = ''//Bob''\<rparr>"

definition request_terms_body :: jsval where
  "request_terms_body =
     JObj [(''type'', JStr ''request-terms''),
           (''content'', JObj [(''cTypeHash'', JStr ''0xabc'')])]"

definition request_attestation_body :: "string \<Rightarrow> jsval" where
  "request_attestation_body owner =
     JObj [(''type'', JStr ''request-attestation-for-claim''),
           (''content'',
            JObj [(''requestForAttestation'',
                   JObj [(''claim'', JObj [(''cTypeHash'', JStr ''0xabc''),
                                           (''owner'', JStr owner)])])])]"

definition submit_attestation_body :: "string \<Rightarrow> jsval" where
  "submit_attestation_body owner =
     JObj [(''type'', JStr ''submit-attestation-for-claim''),
           (''content'',
            JObj [(''attestation'', JObj [(''claimHash'', JStr ''0xdef''),
                                          (''owner'', JStr owner)])])]"

definition demo_json_table :: "(string \<times> jsval) list" where
  "demo_json_table =
     [(''{type:request-terms,content:{cTypeHash:0xabc}}'', request_terms_body),
      (''{type:request-attestation-for-claim,owner:5Alice}'', request_attestation_body ''5Alice''),
      (''{type:request-attestation-for-claim,owner:5Mallory}'',
       request_attestation_body ''5Mallory''),
      (''{type:submit-attestation-for-claim,owner:5Alice}'', submit_attestation_body ''5Alice''),
      (''{type:submit-attestation-for-claim,owner:5Mallory}'',
       submit_attestation_body ''5Mallory''),
      (''{@type:kilt.io/kilt-messaging/0.19/request-terms}'',
       JObj [(''@type'', JStr ''kilt.io/kilt-messaging/0.19/request-terms'')]),
      (''{@type:kilt.io/kilt-messaging/0.20/request-terms}'',
       JObj [(''@type'', JStr ''kilt.io/kilt-messaging/0.20/request-terms'')]),
      (''{@type:kilt.io/kilt-messaging/0.19/request-everything}'',
       JObj [(''@type'', JStr ''kilt.io/kilt-messaging/0.19/request-everything'')]),
      (''{@type:request-terms}'', JObj [(''@type'', JStr ''request-terms'')]),
      (''{content:{}}'', JObj [(''content'', JObj [])])]"

definition demo_stringify :: "jsval \<Rightarrow> string" where
  "demo_stringify v =
     (case filter (\<lambda>(text, v'). v' = v) demo_json_table of
        [] \<Rightarrow> ''null''
      | (text, _) # _ \<Rightarrow> text)"

definition demo_box_prefix :: "string \<Rightarrow> string" where
  "demo_box_prefix key = ''box<'' @ key @ ''>''"

definition demo :: collaborators where
  "demo =
     \<lparr>hashStr = (\<lambda>s. ''h('' @ s @ '')''),
      encryptAsymmetricAsStr =
        (\<lambda>sender plaintext key entropy.
           if key = [] then Inl (Thrown ''bad public key size'')
           else Inr \<lparr>box = demo_box_prefix key @ plaintext,
                     EncryptedAsymmetricString.nonce = entropy\<rparr>),
      decryptAsymmetricAsStr =
        (\<lambda>receiver ea sender_key.
           let p = demo_box_prefix (boxPublicKeyAsHex receiver) in
           if take (length p) (box ea) = p then Some (drop (length p) (box ea)) else None),
      signStr = (\<lambda>signer payload. ''sig<'' @ address signer @ ''>'' @ payload),
      verify = (\<lambda>payload sig signer. sig = ''sig<'' @ signer @ ''>'' @ payload),
      JSON_stringify = demo_stringify,
      JSON_parse = map_of demo_json_table,
      naclKeypairFromSeed = (\<lambda>s. \<lparr>publicKey = ''pk'' @ s, secretKey = ''sk'' @ s\<rparr>),
      unpackMessage =
        (\<lambda>packed keys.
           Inr \<lparr>unpacked_message = packed, senderKey = ''A'', recipientKey = ''B''\<rparr>),
      Date_getTime = (\<lambda>v. case v of JNum n \<Rightarrow> Num n | _ \<Rightarrow> NaN),
      base58Decode = Inr,
      encodeAddress = Inr\<rparr>"

text \<open>A wire message from Alice to Bob around a given plain text, hashed and signed.\<close>

definition demo_wire :: "string \<Rightarrow> string \<Rightarrow> IEncryptedMessage" where
  "demo_wire ciphertext h =
     \<lparr>createdAt = Num 1000,
      receiverAddress = ''5Bob'',
      senderAddress = ''5Alice'',
      senderBoxPublicKey = ''0xa11ce'',
      messageId = None,
      receivedAt = None,
      message = ciphertext,
      nonce = ''n1'',
      hash = h,
      signature = ''sig<5Alice>'' @ h\<rparr>"

definition wire_request_terms :: IEncryptedMessage where
  "wire_request_terms =
     demo_wire ''box<0xb0b>{type:request-terms,content:{cTypeHash:0xabc}}''
       ''h(box<0xb0b>{type:request-terms,content:{cTypeHash:0xabc}}n11000)''"

text \<open>A box that opens to the empty plain text.\<close>

definition wire_empty_plaintext :: IEncryptedMessage where
  "wire_empty_plaintext = demo_wire ''box<0xb0b>'' ''h(box<0xb0b>n11000)''"



text \<open>
  What Alice's constructor makes for Bob around a plain text, at time 1000 with the
  nonce \<open>n1\<close>.
\<close>

definition sealed :: "string \<Rightarrow> IEncryptedMessage" where
  "sealed plaintext =
     demo_wire (demo_box_prefix ''0xb0b'' @ plaintext)
       (''h('' @ demo_box_prefix ''0xb0b'' @ plaintext @ ''n11000)'')"

definition attested_claim :: "string \<Rightarrow> jsval" where
  "attested_claim owner =
     JObj [(''request'', JObj [(''claim'', JObj [(''owner'', JStr owner)])]),
           (''attestation'', JObj [(''owner'', JStr ''5Attester'')])]"

definition submit_claims_body :: "string list \<Rightarrow> jsval" where
  "submit_claims_body owners =
     JObj [(''type'', JStr ''submit-claims-for-ctypes-classic''),
           (''content'', JArr (map attested_claim owners))]"

text \<open>
  A rejection of terms (\<^verbatim>\<open>IRejectTerms\<close>): its content holds a claim and a list of
  attested claims, the legitimations.
\<close>

definition reject_terms_body :: "string \<Rightarrow> jsval" where
  "reject_terms_body owner =
     JObj [(''type'', JStr ''reject-terms''),
           (''content'',
            JObj [(''claim'', JObj [(''cTypeHash'', JStr ''0xabc''), (''owner'', JStr owner)]),
                  (''legitimations'', JArr [attested_claim owner])])]"

section \<open>Runs: sequencing and handlers\<close>

lemma outcome_and_then:
  "outcome (and_then m f) = (case outcome m of Inl e \<Rightarrow> Inl e | Inr x \<Rightarrow> outcome (f x))"
  by (cases m) (auto simp: and_then_def outcome_def split: sum.splits prod.splits)

lemma events_and_then:
  "events (and_then m f) =
     (case outcome m of Inl e \<Rightarrow> events m | Inr x \<Rightarrow> events m @ events (f x))"
  by (cases m) (auto simp: and_then_def outcome_def events_def split: sum.splits prod.splits)

lemma outcome_try_catch:
  "outcome (try_catch m h) = (case outcome m of Inl e \<Rightarrow> outcome (h e) | Inr x \<Rightarrow> Inr x)"
  by (cases m) (auto simp: try_catch_def outcome_def split: sum.splits prod.splits)

lemma events_try_catch:
  "events (try_catch m h) =
     (case outcome m of Inl e \<Rightarrow> events m @ events (h e) | Inr x \<Rightarrow> events m)"
  by (cases m) (auto simp: try_catch_def outcome_def events_def split: sum.splits prod.splits)

lemma run_basic:
  "outcome (ret x) = Inr x" "events (ret x) = []"
  "outcome (throw e) = Inl e" "events (throw e) = []"
  "outcome (call ev r) = r" "events (call ev r) = [ev]"
  by (simp_all add: ret_def throw_def call_def outcome_def events_def)

lemmas run_simps =
  outcome_and_then events_and_then outcome_try_catch events_try_catch run_basic

lemma run_eqI: "events m = events m' \<Longrightarrow> outcome m = outcome m' \<Longrightarrow> m = m'"
  by (simp add: events_def outcome_def prod_eq_iff)

section \<open>The validation layer: hash and signature\<close>

lemma ensureHashAndSignature_outcome:
  "outcome (ensureHashAndSignature env encrypted sender) =
     (if hashStr env (message encrypted @ nonce encrypted @ number_toString (createdAt encrypted))
          \<noteq> hash encrypted
      then Inl (ERROR_NONCE_HASH_INVALID (hash encrypted) (nonce encrypted) ''Message'')
      else if verify env (hash encrypted) (signature encrypted) sender then Inr ()
      else Inl SignatureInvalid)"
  by (simp add: ensureHashAndSignature_def validateSignature_def run_simps Let_def)


lemma ensureHashAndSignature_other_decryption:
  "ensureHashAndSignature (env\<lparr>decryptAsymmetricAsStr := d\<rparr>) encrypted sender =
     ensureHashAndSignature env encrypted sender"
  by (simp add: ensureHashAndSignature_def validateSignature_def Let_def cong: if_cong)




section \<open>Decryption\<close>

lemma events_get_prop: "events (get_prop v k) = []"
  by (cases v) (simp_all add: run_simps)

lemma events_get_path: "events (get_path v ks) = []"
  by (induction ks arbitrary: v) (simp_all add: run_simps events_get_prop split: sum.splits)

lemma events_each: "(\<And>x. events (f x) = []) \<Longrightarrow> events (each f xs) = []"
  by (induction xs) (simp_all add: run_simps split: sum.splits)

lemma events_forEach: "(\<And>x. events (f x) = []) \<Longrightarrow> events (forEach v f) = []"
  by (cases v) (simp_all add: run_simps events_each)

lemma events_ensureOwnerIsSender:
  "events (ensureOwnerIsSender b s) = [Enter_ensureOwnerIsSender]"
  by (simp add: ensureOwnerIsSender_def run_simps events_get_prop events_get_path events_forEach
      split: sum.splits)



text \<open>
  C9. When the asymmetric decryption succeeds with the empty string as plain text,
  \<open>decrypt\<close> fails with the decoding error, and the whole run is the one of a failed
  decryption: nothing at the interface tells the two apart.
\<close>

theorem decrypt_empty_plaintext:
  assumes "outcome (ensureHashAndSignature env encrypted (senderAddress encrypted)) = Inr ()"
    and "decryptAsymmetricAsStr env receiver
           \<lparr>box = message encrypted, EncryptedAsymmetricString.nonce = nonce encrypted\<rparr>
           (senderBoxPublicKey encrypted) = Some []"
  shows "outcome (decrypt env encrypted receiver) = Inl ERROR_DECODING_MESSAGE
     \<and> decrypt env encrypted receiver
       = decrypt (env\<lparr>decryptAsymmetricAsStr := \<lambda>_ _ _. None\<rparr>) encrypted receiver"
proof
  show "outcome (decrypt env encrypted receiver) = Inl ERROR_DECODING_MESSAGE"
    using assms by (simp add: decrypt_def run_simps Let_def)
  show "decrypt env encrypted receiver
       = decrypt (env\<lparr>decryptAsymmetricAsStr := \<lambda>_ _ _. None\<rparr>) encrypted receiver"
    using assms
    by (intro run_eqI)
       (simp_all add: decrypt_def run_simps Let_def ensureHashAndSignature_other_decryption)
qed

theorem decrypt_empty_plaintext_witness:
  "outcome (ensureHashAndSignature demo wire_empty_plaintext (senderAddress wire_empty_plaintext))
     = Inr ()
   \<and> decryptAsymmetricAsStr demo bob
        \<lparr>box = message wire_empty_plaintext,
         EncryptedAsymmetricString.nonce = nonce wire_empty_plaintext\<rparr>
        (senderBoxPublicKey wire_empty_plaintext) = Some []
   \<and> outcome (decrypt demo wire_empty_plaintext bob) = Inl ERROR_DECODING_MESSAGE"
proof -
  have checked:
    "outcome (ensureHashAndSignature demo wire_empty_plaintext
        (senderAddress wire_empty_plaintext)) = Inr ()"
    by code_simp
  have opened:
    "decryptAsymmetricAsStr demo bob
        \<lparr>box = message wire_empty_plaintext,
         EncryptedAsymmetricString.nonce = nonce wire_empty_plaintext\<rparr>
        (senderBoxPublicKey wire_empty_plaintext) = Some []"
    by code_simp
  from decrypt_empty_plaintext [OF checked opened, THEN conjunct1] checked opened
  show ?thesis by blast
qed

text \<open>
  C10. On success \<open>decrypt\<close> returns the encrypted message with the parsed body added:
  every field of the input is in the result, unchanged, ciphertext, nonce, hash and
  signature included, and nothing else is added but the body, which is the parsed
  plain text.
\<close>

theorem decrypt_keeps_fields:
  assumes "outcome (decrypt env encrypted receiver) = Inr d"
  shows "IEncryptedMessage.truncate d = encrypted
     \<and> message d = message encrypted \<and> nonce d = nonce encrypted
     \<and> hash d = hash encrypted \<and> signature d = signature encrypted
     \<and> createdAt d = createdAt encrypted \<and> senderAddress d = senderAddress encrypted
     \<and> receiverAddress d = receiverAddress encrypted
     \<and> senderBoxPublicKey d = senderBoxPublicKey encrypted
     \<and> messageId d = messageId encrypted \<and> receivedAt d = receivedAt encrypted
     \<and> d = IEncryptedMessage.extend encrypted (Message.fields (body d))
     \<and> (\<exists>plaintext.
          decryptAsymmetricAsStr env receiver
            \<lparr>box = message encrypted, EncryptedAsymmetricString.nonce = nonce encrypted\<rparr>
            (senderBoxPublicKey encrypted) = Some plaintext
          \<and> JSON_parse env plaintext = Some (body d))"
  using assms
  apply (simp add: decrypt_def run_simps Let_def split: sum.splits option.splits if_splits)
  apply (auto simp: IEncryptedMessage.defs Message.defs)
  done

theorem decrypt_keeps_fields_witness:
  "outcome (decrypt demo wire_request_terms bob)
     = Inr (IEncryptedMessage.extend wire_request_terms (Message.fields request_terms_body))
   \<and> IEncryptedMessage.truncate
        (IEncryptedMessage.extend wire_request_terms (Message.fields request_terms_body))
     = wire_request_terms
   \<and> signature (IEncryptedMessage.extend wire_request_terms (Message.fields request_terms_body))
     = signature wire_request_terms"
proof -
  have ok:
    "outcome (decrypt demo wire_request_terms bob)
       = Inr (IEncryptedMessage.extend wire_request_terms (Message.fields request_terms_body))"
    by code_simp
  from decrypt_keeps_fields [OF ok] ok show ?thesis
    by blast
qed

section \<open>The validation layer: ownership\<close>

lemma outcome_each_uniform:
  assumes "\<And>x. x \<in> set xs \<Longrightarrow> outcome (f x) = (if ok x then Inr () else Inl e)"
  shows "outcome (each f xs) = (if list_all ok xs then Inr () else Inl e)"
  using assms
  by (induction xs) (simp_all add: run_simps)

lemma ensureOwnerIsSender_request_attestation:
  assumes "outcome (get_prop b ''type'') = Inr (JStr (enum_value REQUEST_ATTESTATION_FOR_CLAIM))"
    and "outcome (get_path b [''content'', ''requestForAttestation'', ''claim'', ''owner''])
           = Inr owner"
  shows "outcome (ensureOwnerIsSender b sender)
           = (if owner = JStr sender then Inr ()
              else Inl (ERROR_IDENTITY_MISMATCH ''Claim'' ''Sender''))"
  using assms by (simp add: ensureOwnerIsSender_def run_simps)

lemma ensureOwnerIsSender_submit_attestation:
  assumes "outcome (get_prop b ''type'') = Inr (JStr (enum_value SUBMIT_ATTESTATION_FOR_CLAIM))"
    and "outcome (get_path b [''content'', ''attestation'', ''owner'']) = Inr owner"
  shows "outcome (ensureOwnerIsSender b sender)
           = (if owner = JStr sender then Inr ()
              else Inl (ERROR_IDENTITY_MISMATCH ''Attestation'' ''Sender''))"
  using assms by (simp add: ensureOwnerIsSender_def run_simps)

lemma ensureOwnerIsSender_submit_claims:
  assumes "outcome (get_prop b ''type'')
             = Inr (JStr (enum_value SUBMIT_CLAIMS_FOR_CTYPES_CLASSIC))"
    and "outcome (get_prop b ''content'') = Inr (JArr claims)"
    and "list_all2 (\<lambda>c owner. outcome (get_path c [''request'', ''claim'', ''owner'']) = Inr owner)
           claims owners"
  shows "outcome (ensureOwnerIsSender b sender)
           = (if list_all (\<lambda>owner. owner = JStr sender) owners then Inr ()
              else Inl (ERROR_IDENTITY_MISMATCH ''Claims'' ''Sender''))"
proof -
  let ?path = "\<lambda>c. outcome (get_path c [''request'', ''claim'', ''owner''])"
  let ?check = "\<lambda>claim.
     and_then (get_path claim [''request'', ''claim'', ''owner''])
       (\<lambda>owner. if owner \<noteq> JStr sender
                 then throw (ERROR_IDENTITY_MISMATCH ''Claims'' ''Sender'')
                 else ret ())"
  from assms(3) have resolved: "\<forall>c \<in> set claims. \<exists>owner. ?path c = Inr owner"
    by (auto simp: list_all2_conv_all_nth in_set_conv_nth)
  have "outcome (each ?check claims)
          = (if list_all (\<lambda>c. ?path c = Inr (JStr sender)) claims then Inr ()
             else Inl (ERROR_IDENTITY_MISMATCH ''Claims'' ''Sender''))"
  proof (rule outcome_each_uniform)
    fix c assume "c \<in> set claims"
    with resolved obtain owner where "?path c = Inr owner" by blast
    then show "outcome (?check c)
                 = (if ?path c = Inr (JStr sender) then Inr ()
                    else Inl (ERROR_IDENTITY_MISMATCH ''Claims'' ''Sender''))"
      by (simp add: run_simps)
  qed
  moreover from assms(3)
  have "list_all (\<lambda>c. ?path c = Inr (JStr sender)) claims
          = list_all (\<lambda>owner. owner = JStr sender) owners"
    by (induction claims owners rule: list_all2_induct) auto
  ultimately show ?thesis
    using assms(1,2) by (simp add: ensureOwnerIsSender_def run_simps)
qed

lemma ensureOwnerIsSender_other:
  assumes "outcome (get_prop b ''type'') = Inr ty"
    and "ty \<noteq> JStr (enum_value REQUEST_ATTESTATION_FOR_CLAIM)"
    and "ty \<noteq> JStr (enum_value SUBMIT_ATTESTATION_FOR_CLAIM)"
    and "ty \<noteq> JStr (enum_value SUBMIT_CLAIMS_FOR_CTYPES_CLASSIC)"
  shows "ensureOwnerIsSender b sender = ([Enter_ensureOwnerIsSender], Inr ())"
proof (rule run_eqI)
  show "events (ensureOwnerIsSender b sender) = events ([Enter_ensureOwnerIsSender], Inr ())"
    by (simp add: events_ensureOwnerIsSender) (simp add: events_def)
  have "outcome (ensureOwnerIsSender b sender) = Inr ()"
    using assms by (simp add: ensureOwnerIsSender_def run_simps)
  then show "outcome (ensureOwnerIsSender b sender) = outcome ([Enter_ensureOwnerIsSender], Inr ())"
    by (simp add: outcome_def)
qed

text \<open>
  C5, as the code has it. \<open>ensureOwnerIsSender\<close> dispatches on \<open>body.type\<close>. For a
  request for attestation (which embeds a claim), a submitted attestation, and a
  classic submission of claims (a list of claims), it throws the identity-mismatch
  error, naming the entity (Claim, Attestation, Claims) and the role (Sender), exactly
  when the embedded owner (for the list: the owner of some claim) is not the very
  string \<open>senderAddress\<close>. For every other type it returns without looking at the
  content, whatever the content embeds.
\<close>

theorem ensureOwnerIsSender_dispatch:
  "(outcome (get_prop b ''type'') = Inr (JStr (enum_value REQUEST_ATTESTATION_FOR_CLAIM))
      \<and> outcome (get_path b [''content'', ''requestForAttestation'', ''claim'', ''owner''])
          = Inr owner
    \<longrightarrow> outcome (ensureOwnerIsSender b sender)
          = (if owner = JStr sender then Inr ()
             else Inl (ERROR_IDENTITY_MISMATCH ''Claim'' ''Sender'')))
   \<and> (outcome (get_prop b ''type'') = Inr (JStr (enum_value SUBMIT_ATTESTATION_FOR_CLAIM))
      \<and> outcome (get_path b [''content'', ''attestation'', ''owner'']) = Inr owner
    \<longrightarrow> outcome (ensureOwnerIsSender b sender)
          = (if owner = JStr sender then Inr ()
             else Inl (ERROR_IDENTITY_MISMATCH ''Attestation'' ''Sender'')))
   \<and> (outcome (get_prop b ''type'')
          = Inr (JStr (enum_value SUBMIT_CLAIMS_FOR_CTYPES_CLASSIC))
      \<and> outcome (get_prop b ''content'') = Inr (JArr claims)
      \<and> list_all2
          (\<lambda>c owner. outcome (get_path c [''request'', ''claim'', ''owner'']) = Inr owner)
          claims owners
    \<longrightarrow> outcome (ensureOwnerIsSender b sender)
          = (if list_all (\<lambda>owner. owner = JStr sender) owners then Inr ()
             else Inl (ERROR_IDENTITY_MISMATCH ''Claims'' ''Sender'')))
   \<and> (outcome (get_prop b ''type'') = Inr ty
      \<and> ty \<noteq> JStr (enum_value REQUEST_ATTESTATION_FOR_CLAIM)
      \<and> ty \<noteq> JStr (enum_value SUBMIT_ATTESTATION_FOR_CLAIM)
      \<and> ty \<noteq> JStr (enum_value SUBMIT_CLAIMS_FOR_CTYPES_CLASSIC)
    \<longrightarrow> ensureOwnerIsSender b sender = ([Enter_ensureOwnerIsSender], Inr ()))"
  using ensureOwnerIsSender_request_attestation [of b owner sender]
    ensureOwnerIsSender_submit_attestation [of b owner sender]
    ensureOwnerIsSender_submit_claims [of b claims owners sender]
    ensureOwnerIsSender_other [of b ty sender]
  by blast

theorem ensureOwnerIsSender_dispatch_witness:
  "outcome (get_prop (request_attestation_body ''5Mallory'') ''type'')
     = Inr (JStr (enum_value REQUEST_ATTESTATION_FOR_CLAIM))
   \<and> outcome (get_path (request_attestation_body ''5Mallory'')
        [''content'', ''requestForAttestation'', ''claim'', ''owner'']) = Inr (JStr ''5Mallory'')
   \<and> outcome (ensureOwnerIsSender (request_attestation_body ''5Mallory'') ''5Alice'')
     = Inl (ERROR_IDENTITY_MISMATCH ''Claim'' ''Sender'')
   \<and> outcome (get_prop (submit_attestation_body ''5Alice'') ''type'')
     = Inr (JStr (enum_value SUBMIT_ATTESTATION_FOR_CLAIM))
   \<and> outcome (get_path (submit_attestation_body ''5Alice'') [''content'', ''attestation'', ''owner''])
     = Inr (JStr ''5Alice'')
   \<and> outcome (ensureOwnerIsSender (submit_attestation_body ''5Alice'') ''5Alice'') = Inr ()
   \<and> outcome (get_prop (submit_claims_body [''5Alice'', ''5Mallory'']) ''type'')
     = Inr (JStr (enum_value SUBMIT_CLAIMS_FOR_CTYPES_CLASSIC))
   \<and> outcome (get_prop (submit_claims_body [''5Alice'', ''5Mallory'']) ''content'')
     = Inr (JArr [attested_claim ''5Alice'', attested_claim ''5Mallory''])
   \<and> list_all2
        (\<lambda>c owner. outcome (get_path c [''request'', ''claim'', ''owner'']) = Inr owner)
        [attested_claim ''5Alice'', attested_claim ''5Mallory'']
        [JStr ''5Alice'', JStr ''5Mallory'']
   \<and> outcome (ensureOwnerIsSender (submit_claims_body [''5Alice'', ''5Mallory'']) ''5Alice'')
     = Inl (ERROR_IDENTITY_MISMATCH ''Claims'' ''Sender'')
   \<and> outcome (get_prop request_terms_body ''type'') = Inr (JStr ''request-terms'')
   \<and> ensureOwnerIsSender request_terms_body ''5Alice'' = ([Enter_ensureOwnerIsSender], Inr ())"
proof -
  have a1: "outcome (get_prop (request_attestation_body ''5Mallory'') ''type'')
     = Inr (JStr (enum_value REQUEST_ATTESTATION_FOR_CLAIM))"
    by code_simp
  have a2: "outcome (get_path (request_attestation_body ''5Mallory'')
        [''content'', ''requestForAttestation'', ''claim'', ''owner'']) = Inr (JStr ''5Mallory'')"
    by code_simp
  have b1: "outcome (get_prop (submit_attestation_body ''5Alice'') ''type'')
     = Inr (JStr (enum_value SUBMIT_ATTESTATION_FOR_CLAIM))"
    by code_simp
  have b2: "outcome (get_path (submit_attestation_body ''5Alice'')
        [''content'', ''attestation'', ''owner'']) = Inr (JStr ''5Alice'')"
    by code_simp
  have c1: "outcome (get_prop (submit_claims_body [''5Alice'', ''5Mallory'']) ''type'')
     = Inr (JStr (enum_value SUBMIT_CLAIMS_FOR_CTYPES_CLASSIC))"
    by code_simp
  have c2: "outcome (get_prop (submit_claims_body [''5Alice'', ''5Mallory'']) ''content'')
     = Inr (JArr [attested_claim ''5Alice'', attested_claim ''5Mallory''])"
    by code_simp
  have c3: "list_all2
        (\<lambda>c owner. outcome (get_path c [''request'', ''claim'', ''owner'']) = Inr owner)
        [attested_claim ''5Alice'', attested_claim ''5Mallory'']
        [JStr ''5Alice'', JStr ''5Mallory'']"
    by code_simp
  have d1: "outcome (get_prop request_terms_body ''type'') = Inr (JStr ''request-terms'')"
    by code_simp
  have d2: "JStr ''request-terms'' \<noteq> JStr (enum_value REQUEST_ATTESTATION_FOR_CLAIM)
     \<and> JStr ''request-terms'' \<noteq> JStr (enum_value SUBMIT_ATTESTATION_FOR_CLAIM)
     \<and> JStr ''request-terms'' \<noteq> JStr (enum_value SUBMIT_CLAIMS_FOR_CTYPES_CLASSIC)"
    by simp
  from a1 a2
    ensureOwnerIsSender_dispatch
      [where b = "request_attestation_body ''5Mallory''" and owner = "JStr ''5Mallory''"
         and sender = "''5Alice''"]
  have a: "outcome (ensureOwnerIsSender (request_attestation_body ''5Mallory'') ''5Alice'')
     = Inl (ERROR_IDENTITY_MISMATCH ''Claim'' ''Sender'')"
    by simp
  from b1 b2
    ensureOwnerIsSender_dispatch
      [where b = "submit_attestation_body ''5Alice''" and owner = "JStr ''5Alice''"
         and sender = "''5Alice''"]
  have b: "outcome (ensureOwnerIsSender (submit_attestation_body ''5Alice'') ''5Alice'') = Inr ()"
    by simp
  from c1 c2 c3
    ensureOwnerIsSender_dispatch
      [where b = "submit_claims_body [''5Alice'', ''5Mallory'']"
         and claims = "[attested_claim ''5Alice'', attested_claim ''5Mallory'']"
         and owners = "[JStr ''5Alice'', JStr ''5Mallory'']" and sender = "''5Alice''"]
  have c: "outcome (ensureOwnerIsSender (submit_claims_body [''5Alice'', ''5Mallory'']) ''5Alice'')
     = Inl (ERROR_IDENTITY_MISMATCH ''Claims'' ''Sender'')"
    by simp
  from d1 d2
    ensureOwnerIsSender_dispatch
      [where b = request_terms_body and ty = "JStr ''request-terms''" and sender = "''5Alice''"]
  have d: "ensureOwnerIsSender request_terms_body ''5Alice'' = ([Enter_ensureOwnerIsSender], Inr ())"
    by blast
  from a1 a2 a b1 b2 b c1 c2 c3 c d1 d show ?thesis
    by blast
qed

text \<open>
  The claim as the spec words it (the check is made for every kind whose content
  embeds a claim, an attestation or a list of claims) does not hold: the three cases
  of the switch are not the only kinds with such a content. A rejection of terms
  embeds a claim and a list of attested claims, and with all of them owned by Mallory
  it passes as a message of Alice.
\<close>

theorem ensureOwnerIsSender_dispatch_counterexample:
  "outcome (get_prop (reject_terms_body ''5Mallory'') ''type'')
     = Inr (JStr (enum_value REJECT_TERMS))
   \<and> outcome (get_path (reject_terms_body ''5Mallory'') [''content'', ''claim'', ''owner''])
     = Inr (JStr ''5Mallory'')
   \<and> outcome (get_path (reject_terms_body ''5Mallory'') [''content'', ''legitimations''])
     = Inr (JArr [attested_claim ''5Mallory''])
   \<and> outcome (get_path (attested_claim ''5Mallory'') [''request'', ''claim'', ''owner''])
     = Inr (JStr ''5Mallory'')
   \<and> JStr ''5Mallory'' \<noteq> JStr ''5Alice''
   \<and> ensureOwnerIsSender (reject_terms_body ''5Mallory'') ''5Alice''
     = ([Enter_ensureOwnerIsSender], Inr ())"
  by code_simp

section \<open>Decryption and the ownership check\<close>

lemma decrypt_parsed:
  assumes "outcome (ensureHashAndSignature env encrypted (senderAddress encrypted)) = Inr ()"
    and "decryptAsymmetricAsStr env receiver
           \<lparr>box = message encrypted, EncryptedAsymmetricString.nonce = nonce encrypted\<rparr>
           (senderBoxPublicKey encrypted) = Some plaintext"
    and "plaintext \<noteq> []"
    and "JSON_parse env plaintext = Some b"
  shows "outcome (decrypt env encrypted receiver)
           = (case outcome (ensureOwnerIsSender b (senderAddress encrypted)) of
                Inl e \<Rightarrow> Inl ERROR_PARSING_MESSAGE
              | Inr _ \<Rightarrow> Inr (IEncryptedMessage.extend encrypted (Message.fields b)))"
  using assms
  by (simp add: decrypt_def run_simps Let_def IEncryptedMessage.defs Message.defs
      split: sum.splits)

text \<open>
  C3, as the code has it. For an encrypted message that passes the hash and signature
  check, decrypts and parses into a request for attestation whose claim owner is not
  the sender's address, the ownership check throws the identity-mismatch error for
  (Claim, Sender), and \<open>decrypt\<close>, which runs the check inside its \<^verbatim>\<open>try\<close> block,
  fails with the parsing error in its place. With the owner equal to the sender's
  address \<open>decrypt\<close> succeeds.
\<close>

theorem decrypt_owner_mismatch:
  assumes "outcome (ensureHashAndSignature env encrypted (senderAddress encrypted)) = Inr ()"
    and "decryptAsymmetricAsStr env receiver
           \<lparr>box = message encrypted, EncryptedAsymmetricString.nonce = nonce encrypted\<rparr>
           (senderBoxPublicKey encrypted) = Some plaintext"
    and "plaintext \<noteq> []"
    and "JSON_parse env plaintext = Some b"
    and "outcome (get_prop b ''type'') = Inr (JStr (enum_value REQUEST_ATTESTATION_FOR_CLAIM))"
    and "outcome (get_path b [''content'', ''requestForAttestation'', ''claim'', ''owner''])
           = Inr owner"
  shows "outcome (ensureOwnerIsSender b (senderAddress encrypted))
           = (if owner = JStr (senderAddress encrypted) then Inr ()
              else Inl (ERROR_IDENTITY_MISMATCH ''Claim'' ''Sender''))
     \<and> outcome (decrypt env encrypted receiver)
           = (if owner = JStr (senderAddress encrypted)
              then Inr (IEncryptedMessage.extend encrypted (Message.fields b))
              else Inl ERROR_PARSING_MESSAGE)"
  using decrypt_parsed [OF assms(1-4)]
    ensureOwnerIsSender_request_attestation [OF assms(5,6), of "senderAddress encrypted"]
  by simp

theorem decrypt_owner_mismatch_witness:
  "outcome (decrypt demo (sealed ''{type:request-attestation-for-claim,owner:5Mallory}'') bob)
     = Inl ERROR_PARSING_MESSAGE
   \<and> outcome (ensureOwnerIsSender (request_attestation_body ''5Mallory'') ''5Alice'')
     = Inl (ERROR_IDENTITY_MISMATCH ''Claim'' ''Sender'')
   \<and> outcome (decrypt demo (sealed ''{type:request-attestation-for-claim,owner:5Alice}'') bob)
     = Inr (IEncryptedMessage.extend
              (sealed ''{type:request-attestation-for-claim,owner:5Alice}'')
              (Message.fields (request_attestation_body ''5Alice'')))"
proof -
  let ?bad = "sealed ''{type:request-attestation-for-claim,owner:5Mallory}''"
  let ?good = "sealed ''{type:request-attestation-for-claim,owner:5Alice}''"
  have bad1: "outcome (ensureHashAndSignature demo ?bad (senderAddress ?bad)) = Inr ()"
    by code_simp
  have bad2: "decryptAsymmetricAsStr demo bob
      \<lparr>box = message ?bad, EncryptedAsymmetricString.nonce = nonce ?bad\<rparr>
      (senderBoxPublicKey ?bad) = Some ''{type:request-attestation-for-claim,owner:5Mallory}''"
    by code_simp
  have bad3: "''{type:request-attestation-for-claim,owner:5Mallory}'' \<noteq> []"
    by simp
  have bad4: "JSON_parse demo ''{type:request-attestation-for-claim,owner:5Mallory}''
      = Some (request_attestation_body ''5Mallory'')"
    by code_simp
  have bad5: "outcome (get_prop (request_attestation_body ''5Mallory'') ''type'')
      = Inr (JStr (enum_value REQUEST_ATTESTATION_FOR_CLAIM))"
    by code_simp
  have bad6: "outcome (get_path (request_attestation_body ''5Mallory'')
      [''content'', ''requestForAttestation'', ''claim'', ''owner'']) = Inr (JStr ''5Mallory'')"
    by code_simp
  have bad7: "senderAddress ?bad = ''5Alice''"
    by code_simp
  have good1: "outcome (ensureHashAndSignature demo ?good (senderAddress ?good)) = Inr ()"
    by code_simp
  have good2: "decryptAsymmetricAsStr demo bob
      \<lparr>box = message ?good, EncryptedAsymmetricString.nonce = nonce ?good\<rparr>
      (senderBoxPublicKey ?good) = Some ''{type:request-attestation-for-claim,owner:5Alice}''"
    by code_simp
  have good3: "''{type:request-attestation-for-claim,owner:5Alice}'' \<noteq> []"
    by simp
  have good4: "JSON_parse demo ''{type:request-attestation-for-claim,owner:5Alice}''
      = Some (request_attestation_body ''5Alice'')"
    by code_simp
  have good5: "outcome (get_prop (request_attestation_body ''5Alice'') ''type'')
      = Inr (JStr (enum_value REQUEST_ATTESTATION_FOR_CLAIM))"
    by code_simp
  have good6: "outcome (get_path (request_attestation_body ''5Alice'')
      [''content'', ''requestForAttestation'', ''claim'', ''owner'']) = Inr (JStr ''5Alice'')"
    by code_simp
  have good7: "senderAddress ?good = ''5Alice''"
    by code_simp
  from decrypt_owner_mismatch [OF bad1 bad2 bad3 bad4 bad5 bad6] bad7
  have bad: "outcome (ensureOwnerIsSender (request_attestation_body ''5Mallory'') ''5Alice'')
       = Inl (ERROR_IDENTITY_MISMATCH ''Claim'' ''Sender'')
     \<and> outcome (decrypt demo ?bad bob) = Inl ERROR_PARSING_MESSAGE"
    by simp
  from decrypt_owner_mismatch [OF good1 good2 good3 good4 good5 good6] good7
  have good: "outcome (decrypt demo ?good bob)
       = Inr (IEncryptedMessage.extend ?good (Message.fields (request_attestation_body ''5Alice'')))"
    by simp
  from bad good show ?thesis by blast
qed

text \<open>
  The claim as the spec words it (the failure is the identity-mismatch error and no
  other) does not hold: Alice's request for attestation of a claim owned by Mallory
  passes the integrity check, decrypts and parses, and \<open>decrypt\<close> fails with the
  parsing error.
\<close>

theorem decrypt_owner_mismatch_counterexample:
  "outcome (ensureHashAndSignature demo
      (sealed ''{type:request-attestation-for-claim,owner:5Mallory}'') ''5Alice'') = Inr ()
   \<and> senderAddress (sealed ''{type:request-attestation-for-claim,owner:5Mallory}'') = ''5Alice''
   \<and> decryptAsymmetricAsStr demo bob
        \<lparr>box = message (sealed ''{type:request-attestation-for-claim,owner:5Mallory}''),
         EncryptedAsymmetricString.nonce
           = nonce (sealed ''{type:request-attestation-for-claim,owner:5Mallory}'')\<rparr>
        ''0xa11ce''
      = Some ''{type:request-attestation-for-claim,owner:5Mallory}''
   \<and> JSON_parse demo ''{type:request-attestation-for-claim,owner:5Mallory}''
      = Some (request_attestation_body ''5Mallory'')
   \<and> outcome (get_path (request_attestation_body ''5Mallory'')
        [''content'', ''requestForAttestation'', ''claim'', ''owner'']) = Inr (JStr ''5Mallory'')
   \<and> outcome (decrypt demo (sealed ''{type:request-attestation-for-claim,owner:5Mallory}'') bob)
      = Inl ERROR_PARSING_MESSAGE
   \<and> outcome (decrypt demo (sealed ''{type:request-attestation-for-claim,owner:5Mallory}'') bob)
      \<noteq> Inl (ERROR_IDENTITY_MISMATCH ''Claim'' ''Sender'')"
  by code_simp

section \<open>Construction and the round trip\<close>

lemma new_Message_outcome:
  "outcome (new_Message env b sender receiver now entropy) =
     (case encryptAsymmetricAsStr env sender (JSON_stringify env b)
             (boxPublicKeyAsHex receiver) entropy of
        Inl e \<Rightarrow> Inl e
      | Inr ea \<Rightarrow>
          Inr \<lparr>createdAt = Num now,
               receiverAddress = address receiver,
               senderAddress = address sender,
               senderBoxPublicKey = getBoxPublicKey sender,
               messageId = None,
               receivedAt = None,
               message = box ea,
               nonce = EncryptedAsymmetricString.nonce ea,
               hash = hashStr env
                 (box ea @ EncryptedAsymmetricString.nonce ea @ number_toString (Num now)),
               signature = signStr env sender
                 (hashStr env
                    (box ea @ EncryptedAsymmetricString.nonce ea @ number_toString (Num now))),
               body = b\<rparr>)"
  by (simp add: new_Message_def run_simps Let_def split: sum.splits)

lemma new_Message_events:
  "events (new_Message env b sender receiver now entropy) =
     [Call_JSON_stringify b,
      Call_encryptAsymmetricAsStr (JSON_stringify env b) (boxPublicKeyAsHex receiver)]
     @ (case encryptAsymmetricAsStr env sender (JSON_stringify env b)
               (boxPublicKeyAsHex receiver) entropy of
          Inl e \<Rightarrow> []
        | Inr ea \<Rightarrow>
            [Call_hashStr
               (box ea @ EncryptedAsymmetricString.nonce ea @ number_toString (Num now)),
             Call_signStr
               (hashStr env
                  (box ea @ EncryptedAsymmetricString.nonce ea @ number_toString (Num now)))])"
  by (simp add: new_Message_def run_simps Let_def split: sum.splits)

text \<open>
  C1, as the code has it. The round trip gives the body back for every body that
  passes the ownership check against the sender's address, provided the collaborators
  fit together at this input: the box made for the receiver's public key opens with
  the sender's public key to the serialized body, which is not empty and parses back
  to the body, and the signature of the sender on the hash verifies for the sender's
  address.
\<close>

theorem roundtrip_owned_body:
  fixes env :: collaborators and sender receiver :: Identity
  assumes encrypts:
      "encryptAsymmetricAsStr env sender (JSON_stringify env b)
         (boxPublicKeyAsHex receiver) entropy = Inr ea"
    and decrypts:
      "decryptAsymmetricAsStr env receiver ea (getBoxPublicKey sender)
         = Some (JSON_stringify env b)"
    and nonempty: "JSON_stringify env b \<noteq> []"
    and parses: "JSON_parse env (JSON_stringify env b) = Some b"
    and verifies:
      "verify env
         (hashStr env (box ea @ EncryptedAsymmetricString.nonce ea @ number_toString (Num now)))
         (signStr env sender
            (hashStr env
               (box ea @ EncryptedAsymmetricString.nonce ea @ number_toString (Num now))))
         (address sender)"
    and owned: "outcome (ensureOwnerIsSender b (address sender)) = Inr ()"
  shows "\<exists>d. outcome (roundtrip env b sender receiver now entropy) = Inr d \<and> body d = b"
proof -
  let ?h = "hashStr env
    (box ea @ EncryptedAsymmetricString.nonce ea @ number_toString (Num now))"
  let ?m = "\<lparr>createdAt = Num now,
             receiverAddress = address receiver,
             senderAddress = address sender,
             senderBoxPublicKey = getBoxPublicKey sender,
             messageId = None,
             receivedAt = None,
             message = box ea,
             nonce = EncryptedAsymmetricString.nonce ea,
             hash = ?h,
             signature = signStr env sender ?h,
             body = b\<rparr>"
  have built:
    "outcome (new_Message env b sender (public_identity receiver) now entropy) = Inr ?m"
    using encrypts by (simp add: new_Message_outcome public_identity_def)
  have checked:
    "outcome (ensureHashAndSignature env (encrypt ?m) (senderAddress (encrypt ?m))) = Inr ()"
    using verifies by (simp add: ensureHashAndSignature_outcome encrypt_def)
  have opened:
    "decryptAsymmetricAsStr env receiver
       \<lparr>box = message (encrypt ?m), EncryptedAsymmetricString.nonce = nonce (encrypt ?m)\<rparr>
       (senderBoxPublicKey (encrypt ?m)) = Some (JSON_stringify env b)"
  proof -
    have eta:
      "\<lparr>box = box ea, EncryptedAsymmetricString.nonce = EncryptedAsymmetricString.nonce ea\<rparr>
         = ea"
      by (cases ea) simp
    from decrypts show ?thesis by (simp add: encrypt_def eta)
  qed
  have "outcome (decrypt env (encrypt ?m) receiver)
          = Inr (IEncryptedMessage.extend (encrypt ?m) (Message.fields b))"
    using decrypt_parsed [OF checked opened nonempty parses] owned
    by (simp add: encrypt_def)
  with built
  have "outcome (roundtrip env b sender receiver now entropy)
          = Inr (IEncryptedMessage.extend (encrypt ?m) (Message.fields b))"
    by (simp add: roundtrip_def run_simps)
  moreover have "body (IEncryptedMessage.extend (encrypt ?m) (Message.fields b)) = b"
    by (simp add: IEncryptedMessage.defs Message.defs encrypt_def)
  ultimately show ?thesis by blast
qed

theorem roundtrip_owned_body_witness:
  "outcome (ensureOwnerIsSender (request_attestation_body ''5Alice'') (address alice)) = Inr ()
   \<and> (\<exists>d. outcome (roundtrip demo (request_attestation_body ''5Alice'') alice bob 1000 ''n1'')
            = Inr d
          \<and> body d = request_attestation_body ''5Alice'')"
proof -
  let ?b = "request_attestation_body ''5Alice''"
  let ?ea = "\<lparr>box = ''box<0xb0b>{type:request-attestation-for-claim,owner:5Alice}'',
              EncryptedAsymmetricString.nonce = ''n1''\<rparr>"
  have encrypts:
    "encryptAsymmetricAsStr demo alice (JSON_stringify demo ?b) (boxPublicKeyAsHex bob) ''n1''
       = Inr ?ea"
    by code_simp
  have decrypts:
    "decryptAsymmetricAsStr demo bob ?ea (getBoxPublicKey alice) = Some (JSON_stringify demo ?b)"
    by code_simp
  have nonempty: "JSON_stringify demo ?b \<noteq> []"
    by code_simp
  have parses: "JSON_parse demo (JSON_stringify demo ?b) = Some ?b"
    by code_simp
  have verifies:
    "verify demo
       (hashStr demo (box ?ea @ EncryptedAsymmetricString.nonce ?ea @ number_toString (Num 1000)))
       (signStr demo alice
          (hashStr demo
             (box ?ea @ EncryptedAsymmetricString.nonce ?ea @ number_toString (Num 1000))))
       (address alice)"
    by code_simp
  have owned: "outcome (ensureOwnerIsSender ?b (address alice)) = Inr ()"
    by code_simp
  from roundtrip_owned_body [OF encrypts decrypts nonempty parses verifies owned] owned
  show ?thesis by blast
qed

text \<open>
  The claim as the spec words it (for every body) does not hold: nothing in the
  constructor looks at the owner, so Alice can build and send an attestation owned by
  Mallory; every collaborator does its part on it, and \<open>decrypt\<close> refuses it.
\<close>

theorem roundtrip_counterexample:
  "outcome (new_Message demo (submit_attestation_body ''5Mallory'') alice
      (public_identity bob) 1000 ''n1'')
     = Inr (IEncryptedMessage.extend
              (sealed ''{type:submit-attestation-for-claim,owner:5Mallory}'')
              (Message.fields (submit_attestation_body ''5Mallory'')))
   \<and> encrypt (IEncryptedMessage.extend
              (sealed ''{type:submit-attestation-for-claim,owner:5Mallory}'')
              (Message.fields (submit_attestation_body ''5Mallory'')))
     = sealed ''{type:submit-attestation-for-claim,owner:5Mallory}''
   \<and> JSON_stringify demo (submit_attestation_body ''5Mallory'')
     = ''{type:submit-attestation-for-claim,owner:5Mallory}''
   \<and> JSON_parse demo ''{type:submit-attestation-for-claim,owner:5Mallory}''
     = Some (submit_attestation_body ''5Mallory'')
   \<and> decryptAsymmetricAsStr demo bob
        \<lparr>box = message (sealed ''{type:submit-attestation-for-claim,owner:5Mallory}''),
         EncryptedAsymmetricString.nonce
           = nonce (sealed ''{type:submit-attestation-for-claim,owner:5Mallory}'')\<rparr>
        (getBoxPublicKey alice)
     = Some ''{type:submit-attestation-for-claim,owner:5Mallory}''
   \<and> outcome (ensureHashAndSignature demo
        (sealed ''{type:submit-attestation-for-claim,owner:5Mallory}'') (address alice))
     = Inr ()
   \<and> outcome (decrypt demo (sealed ''{type:submit-attestation-for-claim,owner:5Mallory}'') bob)
     = Inl ERROR_PARSING_MESSAGE
   \<and> outcome (roundtrip demo (submit_attestation_body ''5Mallory'') alice bob 1000 ''n1'')
     = Inl ERROR_PARSING_MESSAGE"
  by code_simp

text \<open>
  C7, as the code has it. The constructor does not look at the receiver's public
  encryption key: whatever the key is, its first two calls are \<^verbatim>\<open>JSON.stringify\<close> on
  the body and \<^verbatim>\<open>encryptAsymmetricAsStr\<close> on the serialized body with the key as
  given, and the construction fails exactly when this call throws, with the error the
  call throws.
\<close>

theorem new_Message_key_unchecked:
  "take 2 (events (new_Message env b sender receiver now entropy))
     = [Call_JSON_stringify b,
        Call_encryptAsymmetricAsStr (JSON_stringify env b) (boxPublicKeyAsHex receiver)]
   \<and> (outcome (new_Message env b sender receiver now entropy) = Inl e)
     = (encryptAsymmetricAsStr env sender (JSON_stringify env b)
          (boxPublicKeyAsHex receiver) entropy = Inl e)"
  by (simp add: new_Message_events new_Message_outcome split: sum.splits)

text \<open>
  The claim as the spec words it (a missing key is refused before any cryptographic
  call) does not hold: with an empty key the encryption is called, on the empty key,
  and the error of the construction is the one that comes out of this call.
\<close>

theorem new_Message_key_counterexample:
  "boxPublicKeyAsHex \<lparr>address = ''5Bob'', boxPublicKeyAsHex = []\<rparr> = []
   \<and> events (new_Message demo request_terms_body alice
        \<lparr>address = ''5Bob'', boxPublicKeyAsHex = []\<rparr> 1000 ''n1'')
     = [Call_JSON_stringify request_terms_body,
        Call_encryptAsymmetricAsStr ''{type:request-terms,content:{cTypeHash:0xabc}}'' []]
   \<and> encryptAsymmetricAsStr demo alice ''{type:request-terms,content:{cTypeHash:0xabc}}'' []
        ''n1''
     = Inl (Thrown ''bad public key size'')
   \<and> outcome (new_Message demo request_terms_body alice
        \<lparr>address = ''5Bob'', boxPublicKeyAsHex = []\<rparr> 1000 ''n1'')
     = Inl (Thrown ''bad public key size'')"
  by code_simp



section \<open>The pattern of the type URI\<close>

text \<open>What a successful match of each kind of piece says about the input.\<close>

lemma match_here_One:
  assumes "match_here (One c # r) s = Some ms"
  shows "\<exists>x rest ms'. s = x # rest \<and> c x \<and> ms = [x] # ms' \<and> match_here r rest = Some ms'"
  using assms by (cases s) (auto split: if_splits)

lemma match_here_End:
  assumes "match_here [End_Of_Input] s = Some ms"
  shows "s = [] \<and> ms = [[]]"
  using assms by (auto split: if_splits)

lemma push_Some:
  assumes "push x r = Some ms"
  shows "\<exists>m ms'. r = Some (m # ms') \<and> ms = (x # m) # ms'"
  using assms by (cases "(x, r)" rule: push.cases) auto

lemma match_here_Lazy_Star:
  assumes "match_here (Lazy_Star c # r) s = Some ms"
  shows "\<exists>m rest ms'. s = m @ rest \<and> list_all c m \<and> ms = m # ms'
           \<and> match_here r rest = Some ms'"
  using assms
proof (induction s arbitrary: ms)
  case Nil
  then show ?case by auto
next
  case (Cons x xs)
  show ?case
  proof (cases "match_here r (x # xs)")
    case (Some ms')
    with Cons.prems have "ms = [] # ms'" by simp
    with Some
    have "x # xs = [] @ (x # xs) \<and> list_all c [] \<and> ms = [] # ms'
            \<and> match_here r (x # xs) = Some ms'"
      by simp
    then show ?thesis by blast
  next
    case None
    with Cons.prems have cx: "c x"
      and pushed: "push x (match_here (Lazy_Star c # r) xs) = Some ms"
      by (auto split: if_splits)
    from push_Some [OF pushed] obtain m ms'
      where inner: "match_here (Lazy_Star c # r) xs = Some (m # ms')"
        and ms: "ms = (x # m) # ms'"
      by blast
    from Cons.IH [OF inner] obtain m' rest ms''
      where "xs = m' @ rest" "list_all c m'" "m # ms' = m' # ms''"
        "match_here r rest = Some ms''"
      by blast
    with cx ms
    have "x # xs = (x # m') @ rest \<and> list_all c (x # m') \<and> ms = (x # m') # ms''
            \<and> match_here r rest = Some ms''"
      by simp
    then show ?thesis by blast
  qed
qed

lemma match_here_Greedy_Plus:
  assumes "match_here (Greedy_Plus c # r) s = Some ms"
  shows "\<exists>m rest ms'. s = m @ rest \<and> m \<noteq> [] \<and> list_all c m \<and> ms = m # ms'
           \<and> match_here r rest = Some ms'"
  using assms
proof (induction s arbitrary: ms)
  case Nil
  then show ?case by simp
next
  case (Cons x xs)
  from Cons.prems have cx: "c x" by (auto split: if_splits)
  show ?case
  proof (cases "match_here (Greedy_Plus c # r) xs")
    case (Some ms1)
    with Cons.prems cx have pushed: "push x (Some ms1) = Some ms" by simp
    from push_Some [OF pushed] obtain m ms' where ms1: "ms1 = m # ms'" and ms: "ms = (x # m) # ms'"
      by blast
    from Cons.IH [OF Some] ms1 obtain m' rest ms''
      where "xs = m' @ rest" "list_all c m'" "m # ms' = m' # ms''"
        "match_here r rest = Some ms''"
      by blast
    with cx ms
    have "x # xs = (x # m') @ rest \<and> x # m' \<noteq> [] \<and> list_all c (x # m')
            \<and> ms = (x # m') # ms'' \<and> match_here r rest = Some ms''"
      by simp
    then show ?thesis by blast
  next
    case None
    with Cons.prems cx obtain ms' where "match_here r xs = Some ms'" "ms = [x] # ms'"
      by auto
    with cx
    have "x # xs = [x] @ xs \<and> [x] \<noteq> [] \<and> list_all c [x] \<and> ms = [x] # ms'
            \<and> match_here r xs = Some ms'"
      by simp
    then show ?thesis by blast
  qed
qed

lemma match_from_suffix:
  assumes "match_from as s = Some ms"
  shows "\<exists>skipped rest. s = skipped @ rest \<and> match_here as rest = Some ms"
  using assms
proof (induction s)
  case Nil
  then show ?case by simp
next
  case (Cons x xs)
  show ?case
  proof (cases "match_here as (x # xs)")
    case (Some ms')
    with Cons.prems have "ms' = ms" by simp
    with Some have "x # xs = [] @ (x # xs) \<and> match_here as (x # xs) = Some ms"
      by simp
    then show ?thesis by blast
  next
    case None
    with Cons.prems have "match_from as xs = Some ms" by simp
    from Cons.IH [OF this] obtain skipped rest
      where "xs = skipped @ rest" "match_here as rest = Some ms" by blast
    then have "x # xs = (x # skipped) @ rest \<and> match_here as rest = Some ms"
      by simp
    then show ?thesis by blast
  qed
qed

text \<open>How each kind of piece succeeds.\<close>

lemma match_here_Lazy_Star_empty:
  assumes "match_here r s = Some ms"
  shows "match_here (Lazy_Star c # r) s = Some ([] # ms)"
  using assms by (cases s) simp_all

lemma match_here_Greedy_Plus_all:
  assumes "m \<noteq> []" and "list_all c m" and "rest = [] \<or> \<not> c (hd rest)"
    and "match_here r rest = Some ms"
  shows "match_here (Greedy_Plus c # r) (m @ rest) = Some (m # ms)"
  using assms(1,2)
proof (induction m rule: list_nonempty_induct)
  case (single x)
  from assms(3) have "match_here (Greedy_Plus c # r) rest = None"
    by (cases rest) auto
  with single assms(4) show ?case by simp
next
  case (cons x xs)
  then show ?case by simp
qed

lemma match_from_found:
  assumes "match_here as rest = Some ms"
  shows "\<exists>ms'. match_from as (skipped @ rest) = Some ms'"
proof (induction skipped)
  case Nil
  with assms show ?case by (cases rest) simp_all
next
  case (Cons x xs)
  then show ?case by (cases "match_here as (x # xs @ rest)") simp_all
qed

lemma name_char_not_slash: "name_char c \<Longrightarrow> c \<noteq> CHR ''/''"
  by (auto simp: name_char_def is_lower_def is_digit_def)

lemma version_char_not_slash: "version_char c \<Longrightarrow> c \<noteq> CHR ''/''"
  by (auto simp: version_char_def is_digit_def)

lemma name_char_not_separator: "name_char c \<Longrightarrow> \<not> separator_char c"
  by (auto simp: name_char_def separator_char_def is_lower_def is_digit_def)

text \<open>
  A string has one last character of a kind \<open>P\<close>: two ways of cutting it at a
  \<open>P\<close>-character with none after it are the same.
\<close>

lemma cut_at_first:
  assumes "a @ x # b = a' @ x' # b'"
    and "\<forall>y \<in> set a. \<not> P y" and "\<forall>y \<in> set a'. \<not> P y" and "P x" and "P x'"
  shows "a = a' \<and> x = x' \<and> b = b'"
  using assms
proof (induction a arbitrary: a')
  case Nil
  then show ?case by (cases a') auto
next
  case (Cons y ys)
  then show ?case by (cases a') auto
qed

lemma cut_at_last:
  assumes "a @ x # b = a' @ x' # b'"
    and "\<forall>y \<in> set b. \<not> P y" and "\<forall>y \<in> set b'. \<not> P y" and "P x" and "P x'"
  shows "a = a' \<and> x = x' \<and> b = b'"
proof -
  from assms(1) have "rev (a @ x # b) = rev (a' @ x' # b')" by simp
  then have "rev b @ x # rev a = rev b' @ x' # rev a'" by simp
  from cut_at_first [OF this, of P] assms(2-5) show ?thesis by simp
qed

text \<open>
  A match of the pattern cuts the matched text into the five segments of a type URI,
  and the segments of a type URI are determined by the text: the last two slashes and
  the last separator before them.
\<close>

lemma typestringReg_sound:
  assumes "match_here (map atom_of typestringReg) s = Some ms"
  shows "\<exists>g sep name version typestr.
           ms = [g, [sep], name, ''/'', version, ''/'', typestr, []]
           \<and> s = type_uri g sep name version typestr
           \<and> separator_char sep \<and> segment name_char name
           \<and> segment version_char version \<and> segment name_char typestr"
proof -
  let ?slash = "\<lambda>c. c = CHR ''/''"
  let ?r7 = "[End_Of_Input]"
  let ?r6 = "Greedy_Plus name_char # ?r7"
  let ?r5 = "One ?slash # ?r6"
  let ?r4 = "Greedy_Plus version_char # ?r5"
  let ?r3 = "One ?slash # ?r4"
  let ?r2 = "Greedy_Plus name_char # ?r3"
  let ?r1 = "One separator_char # ?r2"
  from assms have "match_here (Lazy_Star any_char # ?r1) s = Some ms"
    by (simp add: typestringReg_def)
  from match_here_Lazy_Star [OF this] obtain g s1 ms1
    where s: "s = g @ s1" and ms: "ms = g # ms1" and m1: "match_here ?r1 s1 = Some ms1"
    by blast
  from match_here_One [OF m1] obtain sep s2 ms2
    where s1: "s1 = sep # s2" and sep: "separator_char sep" and ms1: "ms1 = [sep] # ms2"
      and m2: "match_here ?r2 s2 = Some ms2"
    by blast
  from match_here_Greedy_Plus [OF m2] obtain name s3 ms3
    where s2: "s2 = name @ s3" and name: "name \<noteq> []" "list_all name_char name"
      and ms2: "ms2 = name # ms3" and m3: "match_here ?r3 s3 = Some ms3"
    by blast
  from match_here_One [OF m3] obtain x1 s4 ms4
    where s3: "s3 = x1 # s4" and x1: "x1 = CHR ''/''" and ms3: "ms3 = [x1] # ms4"
      and m4: "match_here ?r4 s4 = Some ms4"
    by blast
  from match_here_Greedy_Plus [OF m4] obtain version s5 ms5
    where s4: "s4 = version @ s5" and version: "version \<noteq> []" "list_all version_char version"
      and ms4: "ms4 = version # ms5" and m5: "match_here ?r5 s5 = Some ms5"
    by blast
  from match_here_One [OF m5] obtain x2 s6 ms6
    where s5: "s5 = x2 # s6" and x2: "x2 = CHR ''/''" and ms5: "ms5 = [x2] # ms6"
      and m6: "match_here ?r6 s6 = Some ms6"
    by blast
  from match_here_Greedy_Plus [OF m6] obtain typestr s7 ms7
    where s6: "s6 = typestr @ s7" and typestr: "typestr \<noteq> []" "list_all name_char typestr"
      and ms6: "ms6 = typestr # ms7" and m7: "match_here ?r7 s7 = Some ms7"
    by blast
  from match_here_End [OF m7] have s7: "s7 = []" and ms7: "ms7 = [[]]"
    by simp_all
  have "ms = [g, [sep], name, ''/'', version, ''/'', typestr, []]"
    by (simp add: ms ms1 ms2 ms3 ms4 ms5 ms6 ms7 x1 x2)
  moreover have "s = type_uri g sep name version typestr"
    by (simp add: type_uri_def s s1 s2 s3 s4 s5 s6 s7 x1 x2)
  ultimately show ?thesis
    using sep name version typestr by (simp add: segment_def)
qed

lemma typestringReg_complete:
  assumes "separator_char sep" and "segment name_char name"
    and "segment version_char version" and "segment name_char typestr"
  shows "match_here (map atom_of typestringReg) (type_uri [] sep name version typestr)
           = Some [[], [sep], name, ''/'', version, ''/'', typestr, []]"
proof -
  let ?slash = "\<lambda>c. c = CHR ''/''"
  let ?r7 = "[End_Of_Input]"
  let ?r6 = "Greedy_Plus name_char # ?r7"
  let ?r5 = "One ?slash # ?r6"
  let ?r4 = "Greedy_Plus version_char # ?r5"
  let ?r3 = "One ?slash # ?r4"
  let ?r2 = "Greedy_Plus name_char # ?r3"
  let ?r1 = "One separator_char # ?r2"
  have m7: "match_here ?r7 [] = Some [[]]"
    by simp
  have "match_here ?r6 (typestr @ []) = Some (typestr # [[]])"
    using assms(4) by (intro match_here_Greedy_Plus_all m7) (simp_all add: segment_def)
  then have m6: "match_here ?r6 typestr = Some [typestr, []]"
    by simp
  then have m5: "match_here ?r5 (''/'' @ typestr) = Some [''/'', typestr, []]"
    by simp
  have m4: "match_here ?r4 (version @ ''/'' @ typestr) = Some [version, ''/'', typestr, []]"
    using assms(3) version_char_not_slash
    by (intro match_here_Greedy_Plus_all m5) (auto simp: segment_def)
  then have m3: "match_here ?r3 (''/'' @ version @ ''/'' @ typestr)
      = Some [''/'', version, ''/'', typestr, []]"
    by simp
  have m2: "match_here ?r2 (name @ ''/'' @ version @ ''/'' @ typestr)
      = Some [name, ''/'', version, ''/'', typestr, []]"
    using assms(2) name_char_not_slash
    by (intro match_here_Greedy_Plus_all m3) (auto simp: segment_def)
  with assms(1) have m1: "match_here ?r1 (sep # name @ ''/'' @ version @ ''/'' @ typestr)
      = Some [[sep], name, ''/'', version, ''/'', typestr, []]"
    by simp
  from match_here_Lazy_Star_empty [OF m1, of any_char] show ?thesis
    by (simp add: typestringReg_def type_uri_def)
qed

lemma type_uri_unique:
  assumes "skipped @ type_uri g sep name version typestr
             = type_uri issuer sep' name' version' typestr'"
    and "separator_char sep" and "segment name_char name"
    and "segment version_char version" and "segment name_char typestr"
    and "separator_char sep'" and "segment name_char name'"
    and "segment version_char version'" and "segment name_char typestr'"
  shows "name = name' \<and> version = version' \<and> typestr = typestr'"
proof -
  let ?slash = "\<lambda>c. c = CHR ''/''"
  have no_slash: "\<forall>y \<in> set typestr. \<not> ?slash y" "\<forall>y \<in> set typestr'. \<not> ?slash y"
    "\<forall>y \<in> set version. \<not> ?slash y" "\<forall>y \<in> set version'. \<not> ?slash y"
    using assms(3-5,7-9) name_char_not_slash version_char_not_slash
    by (auto simp: segment_def list_all_iff)
  have no_sep: "\<forall>y \<in> set name. \<not> separator_char y" "\<forall>y \<in> set name'. \<not> separator_char y"
    using assms(3,7) name_char_not_separator by (auto simp: segment_def list_all_iff)
  from assms(1)
  have "(skipped @ g @ [sep] @ name @ ''/'' @ version) @ CHR ''/'' # typestr
          = (issuer @ [sep'] @ name' @ ''/'' @ version') @ CHR ''/'' # typestr'"
    by (simp add: type_uri_def)
  from cut_at_last [OF this, of ?slash] no_slash(1,2)
  have typestr: "typestr = typestr'"
    and rest: "skipped @ g @ [sep] @ name @ ''/'' @ version
                 = issuer @ [sep'] @ name' @ ''/'' @ version'"
    by simp_all
  from rest have "(skipped @ g @ [sep] @ name) @ CHR ''/'' # version
          = (issuer @ [sep'] @ name') @ CHR ''/'' # version'"
    by simp
  from cut_at_last [OF this, of ?slash] no_slash(3,4)
  have version: "version = version'"
    and rest': "skipped @ g @ [sep] @ name = issuer @ [sep'] @ name'"
    by simp_all
  from rest' have "(skipped @ g) @ sep # name = issuer @ sep' # name'"
    by simp
  from cut_at_last [OF this, of separator_char] no_sep assms(2,6)
  have "name = name'" by simp
  with version typestr show ?thesis by simp
qed

lemma typestringReg_captures:
  "map snd (filter (\<lambda>(p, m). is_capture p) (zip typestringReg [m1, m2, m3, m4, m5, m6, m7, m8]))
     = [m1, m3, m5, m7]"
  by (simp add: typestringReg_def)

text \<open>
  What \<^verbatim>\<open>match\<close> returns for the pattern: always five captures, of which the last
  three are the protocol name, the version and the message type of a type URI at the
  end of the string.
\<close>

lemma regex_match_typestringReg:
  assumes "regex_match typestringReg s = Some captures"
  shows "\<exists>skipped g sep name version typestr.
           s = skipped @ type_uri g sep name version typestr
           \<and> captures = [type_uri g sep name version typestr, g, name, version, typestr]
           \<and> separator_char sep \<and> segment name_char name
           \<and> segment version_char version \<and> segment name_char typestr"
proof -
  from assms obtain ms
    where found: "match_from (map atom_of typestringReg) s = Some ms"
      and captures:
        "captures = concat ms # map snd (filter (\<lambda>(p, m). is_capture p) (zip typestringReg ms))"
    by (auto simp: regex_match_def)
  from match_from_suffix [OF found] obtain skipped rest
    where s: "s = skipped @ rest"
      and here: "match_here (map atom_of typestringReg) rest = Some ms"
    by blast
  from typestringReg_sound [OF here] obtain g sep name version typestr
    where ms: "ms = [g, [sep], name, ''/'', version, ''/'', typestr, []]"
      and rest: "rest = type_uri g sep name version typestr"
      and classes: "separator_char sep" "segment name_char name"
        "segment version_char version" "segment name_char typestr"
    by blast
  have "captures = [type_uri g sep name version typestr, g, name, version, typestr]"
    unfolding captures ms typestringReg_captures by (simp add: type_uri_def)
  with s rest classes show ?thesis by blast
qed

lemma regex_match_type_uri:
  assumes "separator_char sep" and "segment name_char name"
    and "segment version_char version" and "segment name_char typestr"
  shows "\<exists>whole g. regex_match typestringReg (type_uri issuer sep name version typestr)
           = Some [whole, g, name, version, typestr]"
proof -
  have uri: "type_uri issuer sep name version typestr
               = issuer @ type_uri [] sep name version typestr"
    by (simp add: type_uri_def)
  from match_from_found [OF typestringReg_complete [OF assms], of issuer] uri
  obtain ms where "match_from (map atom_of typestringReg)
      (type_uri issuer sep name version typestr) = Some ms"
    by auto
  then obtain captures
    where matched: "regex_match typestringReg (type_uri issuer sep name version typestr)
                      = Some captures"
    by (simp add: regex_match_def)
  from regex_match_typestringReg [OF matched] obtain skipped g sep' name' version' typestr'
    where cut: "type_uri issuer sep name version typestr
                  = skipped @ type_uri g sep' name' version' typestr'"
      and captures: "captures = [type_uri g sep' name' version' typestr', g, name', version', typestr']"
      and classes: "separator_char sep'" "segment name_char name'"
        "segment version_char version'" "segment name_char typestr'"
    by blast
  from type_uri_unique [OF cut [symmetric] classes assms]
  have "name' = name \<and> version' = version \<and> typestr' = typestr" .
  with matched captures show ?thesis by simp
qed

lemma typestringReg_no_match:
  "(regex_match typestringReg s = None)
     = (\<nexists>issuer sep name version typestr.
          s = type_uri issuer sep name version typestr
          \<and> separator_char sep \<and> segment name_char name
          \<and> segment version_char version \<and> segment name_char typestr)"
proof
  assume none: "regex_match typestringReg s = None"
  show "\<nexists>issuer sep name version typestr.
          s = type_uri issuer sep name version typestr
          \<and> separator_char sep \<and> segment name_char name
          \<and> segment version_char version \<and> segment name_char typestr"
  proof
    assume "\<exists>issuer sep name version typestr.
          s = type_uri issuer sep name version typestr
          \<and> separator_char sep \<and> segment name_char name
          \<and> segment version_char version \<and> segment name_char typestr"
    then obtain issuer sep name version typestr
      where "s = type_uri issuer sep name version typestr" "separator_char sep"
        "segment name_char name" "segment version_char version" "segment name_char typestr"
      by blast
    with regex_match_type_uri [of sep name version typestr issuer] none show False
      by auto
  qed
next
  assume no_uri: "\<nexists>issuer sep name version typestr.
          s = type_uri issuer sep name version typestr
          \<and> separator_char sep \<and> segment name_char name
          \<and> segment version_char version \<and> segment name_char typestr"
  show "regex_match typestringReg s = None"
  proof (cases "regex_match typestringReg s")
    case None
    then show ?thesis .
  next
    case (Some captures)
    from regex_match_typestringReg [OF Some] obtain skipped g sep name version typestr
      where "s = skipped @ type_uri g sep name version typestr" "separator_char sep"
        "segment name_char name" "segment version_char version" "segment name_char typestr"
      by blast
    then have "s = type_uri (skipped @ g) sep name version typestr
        \<and> separator_char sep \<and> segment name_char name
        \<and> segment version_char version \<and> segment name_char typestr"
      by (simp add: type_uri_def)
    with no_uri show ?thesis by blast
  qed
qed

section \<open>Decoding an envelope\<close>

lemma message_type_of_type_uri:
  assumes "separator_char sep" and "segment name_char name"
    and "segment version_char version" and "segment name_char typestr"
  shows "message_type_of (JStr (type_uri issuer sep name version typestr))
           = (if name \<noteq> PROTOCOL_NAME \<or> version \<noteq> PROTOCOL_VERSION
              then throw (ERROR_CANT_HANDLE_PROTOCOL name version)
              else if isKnownMessageType typestr then ret (Some typestr)
              else throw (Error (''unknown message type: '' @ quoted typestr)))"
proof -
  from regex_match_type_uri [OF assms, of issuer] obtain whole g
    where "regex_match typestringReg (type_uri issuer sep name version typestr)
             = Some [whole, g, name, version, typestr]"
    by blast
  then show ?thesis
    by (simp add: message_type_of_def Let_def)
qed



lemma protocol_segments:
  "segment name_char PROTOCOL_NAME" "segment version_char PROTOCOL_VERSION"
  by (simp_all add: segment_def PROTOCOL_NAME_def PROTOCOL_VERSION_def name_char_def
      version_char_def is_lower_def is_digit_def)



text \<open>
  The other direction: the type URI that the SDK itself writes into an envelope,
  \<^verbatim>\<open>kilt.io/${PROTOCOL_NAME}/${PROTOCOL_VERSION}/${this.body.type}\<close>, is read back as its
  message type, for each of the sixteen types.
\<close>

lemma known_type_segment: "isKnownMessageType ty \<Longrightarrow> segment name_char ty"
  by (auto simp: isKnownMessageType_def MessageBodyType_values_def segment_def name_char_def
      is_lower_def is_digit_def)

lemma message_type_of_own_uri:
  assumes "isKnownMessageType ty"
  shows "message_type_of
           (JStr (''kilt.io/'' @ PROTOCOL_NAME @ ''/'' @ PROTOCOL_VERSION @ ''/'' @ ty))
         = ret (Some ty)"
proof -
  have "''kilt.io/'' @ PROTOCOL_NAME @ ''/'' @ PROTOCOL_VERSION @ ''/'' @ ty
          = type_uri ''kilt.io'' CHR ''/'' PROTOCOL_NAME PROTOCOL_VERSION ty"
    by (simp add: type_uri_def)
  moreover have "separator_char CHR ''/''"
    by (simp add: separator_char_def)
  ultimately show ?thesis
    using assms known_type_segment [OF assms]
    by (simp add: message_type_of_type_uri protocol_segments)
qed

lemma decryptDIDComm_own_uri:
  "outcome (decryptDIDComm demo ''{@type:kilt.io/kilt-messaging/0.19/request-terms}'' bob)
     = Inr \<lparr>IMessage.body = JObj [(''content'', JUndefined), (''type'', JStr ''request-terms'')],
            IMessage.createdAt = NaN,
            IMessage.senderBoxPublicKey = JStr [],
            IMessage.receiverAddress = ''B'',
            IMessage.senderAddress = ''A''\<rparr>"
  by code_simp

end
